theory Spec2Isabelle
  imports Complex_Main "HOL-Library.Stream"
begin

section \<open>Stellar Pool: the physics engine\<close>

text \<open>
  A shallow embedding of \<^verbatim>\<open>src/modules/physics.js\<close> (class \<^verbatim>\<open>PhysicsEngine\<close>) and of the
  handlers of \<^verbatim>\<open>src/game.js\<close> that the engine calls back.

  Conventions of the embedding.
  \<^item> JavaScript numbers are read as real numbers (the specification calls positions
    "real-valued"); rounding, infinities and NaN are not modelled.
  \<^item> An object \<^verbatim>\<open>{x, y}\<close> (a velocity, the camera, a pointer position) is a pair.
  \<^item> The fields \<^verbatim>\<open>x\<close>, \<^verbatim>\<open>y\<close> and \<^verbatim>\<open>id\<close> of a body are called \<open>posX\<close>, \<open>posY\<close> and
    \<open>ident\<close>; \<open>element\<close> records whether the DOM handle of the body is non-null.
  \<^item> Mutation is explicit state passing: a method of the engine that also calls back
    into the game takes and returns the pair of the game and the engine.
  \<^item> An exception is a value: a method that can throw gives an \<open>outcome\<close>, which holds
    the state at the \<^verbatim>\<open>return\<close> or at the \<^verbatim>\<open>throw\<close>, since what was written before an
    exception stays written.
  \<^item> \<^verbatim>\<open>Math.random()\<close> takes the head of the stream \<open>randomSource\<close>, which stands for the
    values the generator is going to return; \<^verbatim>\<open>performance.now()\<close> is a parameter.
  \<^item> Writes to the DOM (styles, classes), sounds and console output are left out.
\<close>

subsection \<open>Data\<close>

type_synonym point = "real \<times> real"

datatype starType = yellow | blue | red

record body =
  ident :: string
  element :: bool
  posX :: real
  posY :: real
  radius :: real

record mover = body +
  velocity :: point
  rotation :: real

record star = mover +
  stype :: starType
  mass :: real
  restitution :: real
  moving :: bool
  inHole :: bool

record hole = body +
  isActive :: bool

record meteorite = mover +
  rotationSpeed :: real

text \<open>
  The only exception of these sources is the \<^verbatim>\<open>TypeError\<close> of a call of a method that
  does not exist.
\<close>

datatype error = TypeError

datatype 'a outcome = returned: Returns (stateOf: 'a) | Throws error (stateOf: 'a)

text \<open>The callbacks of the game that the engine invokes, in the order they were received.\<close>

datatype event = StarBounce string | StarInHole string | StarHitMeteorite string

text \<open>
  The part of \<^verbatim>\<open>game.gameState\<close> that the engine and the mouse handler read or write, and
  what the callbacks change.
\<close>

record game =
  gameActive :: bool
  gamePaused :: bool
  selectedStar :: "string option"
  startPos :: point
  currentPos :: point
  dragging :: bool
  dragStartTime :: real
  camera :: point
  score :: int
  received :: "event list"

record engine =
  stars :: "star list"
  holes :: "hole list"
  meteorites :: "meteorite list"
  enabled :: bool
  activeHole :: "nat option"
  lastUpdateTime :: real
  useDeltaTime :: bool
  randomSource :: "real stream"

subsection \<open>Constants of the constructor\<close>

definition friction :: real where "friction = 0.98"
definition minSpeed :: real where "minSpeed = 0.5"
definition collisionThreshold :: real where "collisionThreshold = 25"
definition MAX_VELOCITY :: real where "MAX_VELOCITY = 25"
definition STAR_RADIUS :: real where "STAR_RADIUS = 16"
definition HOLE_RADIUS :: real where "HOLE_RADIUS = 20"
definition METEORITE_RADIUS :: real where "METEORITE_RADIUS = 15"
definition POWER_FACTOR :: real where "POWER_FACTOR = 0.12"
definition boardWidth :: real where "boardWidth = 1600"
definition boardHeight :: real where "boardHeight = 800"

fun STAR_PROPERTIES :: "starType \<Rightarrow> real \<times> real" where
  "STAR_PROPERTIES yellow = (1, 0.8)"
| "STAR_PROPERTIES blue = (0.8, 0.9)"
| "STAR_PROPERTIES red = (1.2, 0.7)"

text \<open>
  The engine as the constructor leaves it, given the random source: no bodies, enabled,
  no active hole.
\<close>

definition constructor :: "real stream \<Rightarrow> engine" where
  "constructor rs =
     \<lparr> stars = [], holes = [], meteorites = [], enabled = True, activeHole = None,
       lastUpdateTime = 0, useDeltaTime = True, randomSource = rs \<rparr>"

subsection \<open>Library functions of JavaScript\<close>

text \<open>
  \<^verbatim>\<open>Math.atan2(y, x)\<close> on real numbers: the angle of the point \<open>(x, y)\<close> in \<open>(-\<pi>, \<pi>]\<close>,
  and 0 at the origin.
\<close>

definition atan2 :: "real \<Rightarrow> real \<Rightarrow> real" where
  "atan2 b a =
     (if 0 < a then arctan (b / a)
      else if a < 0 then (if 0 \<le> b then arctan (b / a) + pi else arctan (b / a) - pi)
      else if 0 < b then pi / 2
      else if b < 0 then - pi / 2
      else 0)"

text \<open>
  \<^verbatim>\<open>Array.prototype.findIndex\<close>: the index of the first element that satisfies the
  predicate, \<open>-1\<close> when there is none.
\<close>

fun findIndex :: "('a \<Rightarrow> bool) \<Rightarrow> 'a list \<Rightarrow> int" where
  "findIndex P [] = -1"
| "findIndex P (a # as) =
     (if P a then 0 else (let r = findIndex P as in if r < 0 then -1 else r + 1))"

text \<open>
  \<^verbatim>\<open>Array.prototype.forEach\<close> with a callback that can throw: an exception ends the loop
  and goes on to the caller.
\<close>

fun forEach :: "('a \<Rightarrow> 's \<Rightarrow> 's outcome) \<Rightarrow> 'a list \<Rightarrow> 's \<Rightarrow> 's outcome" where
  "forEach f [] s = Returns s"
| "forEach f (a # as) s =
     (case f a s of Throws err s' \<Rightarrow> Throws err s' | Returns s' \<Rightarrow> forEach f as s')"

text \<open>\<^verbatim>\<open>xs[i]\<close> for a number \<open>i\<close>: \<^verbatim>\<open>undefined\<close> (here \<open>None\<close>) outside the array.\<close>

definition elemAt :: "'a list \<Rightarrow> int \<Rightarrow> 'a option" where
  "elemAt xs i = (if 0 \<le> i \<and> i < int (length xs) then Some (xs ! nat i) else None)"

subsection \<open>The page the engine is initialised from\<close>

text \<open>
  What the initialisers read from the document. \<open>styleLeft\<close> and \<open>styleTop\<close> are the results of
  \<^verbatim>\<open>parseInt(element.style.left)\<close> and \<^verbatim>\<open>parseInt(element.style.top)\<close>, \<open>None\<close> for NaN;
  \<open>active\<close> is \<^verbatim>\<open>classList.contains("active")\<close>; \<open>translate\<close> holds the two percentages of a
  \<^verbatim>\<open>translate(a%, b%)\<close> transform when the element has one that matches; \<open>board\<close> is the
  \<^verbatim>\<open>offsetWidth\<close> and \<^verbatim>\<open>offsetHeight\<close> of the element \<^verbatim>\<open>unifiedBoard\<close>, when it exists.
\<close>

record style =
  styleLeft :: "int option"
  styleTop :: "int option"

record holeElement = style +
  active :: bool
  translate :: "(real \<times> real) option"

record document =
  getElementById :: "string \<Rightarrow> style option"
  holeElements :: "holeElement list"
  meteoriteElements :: "style list"
  board :: "(real \<times> real) option"

text \<open>\<^verbatim>\<open>parseInt(s) || 0\<close>: NaN and 0 both give 0.\<close>

definition parseIntOr0 :: "int option \<Rightarrow> real" where
  "parseIntOr0 p = (case p of None \<Rightarrow> 0 | Some n \<Rightarrow> of_int n)"

subsection \<open>Initialisation\<close>

definition starElements :: "(string \<times> starType) list" where
  "starElements = [(''star1'', yellow), (''star2'', blue), (''star3'', red)]"

fun initStar :: "document \<Rightarrow> string \<times> starType \<Rightarrow> star list \<Rightarrow> star list" where
  "initStar doc (sid, ty) acc =
     (case getElementById doc sid of
        None \<Rightarrow> acc
      | Some el \<Rightarrow>
          acc @ [\<lparr> ident = sid, element = True,
                   posX = parseIntOr0 (styleLeft el), posY = parseIntOr0 (styleTop el),
                   radius = STAR_RADIUS, velocity = (0, 0), rotation = 0,
                   stype = ty, mass = fst (STAR_PROPERTIES ty),
                   restitution = snd (STAR_PROPERTIES ty),
                   moving = False, inHole = False \<rparr>])"

definition initializeStars :: "document \<Rightarrow> engine \<Rightarrow> engine" where
  "initializeStars doc e = e\<lparr>stars := fold (initStar doc) starElements []\<rparr>"

text \<open>The decimal digits of a number, as a template literal prints it.\<close>

fun decimal :: "nat \<Rightarrow> string" where
  "decimal n =
     (if n < 10 then [char_of (48 + n)] else decimal (n div 10) @ [char_of (48 + n mod 10)])"

declare decimal.simps [simp del]

text \<open>
  \<open>initHole\<close> is the body of the \<^verbatim>\<open>forEach\<close> of \<^verbatim>\<open>initializeHoles\<close>; the index of the
  element is the length of the list built so far.
\<close>

definition initHole :: "document \<Rightarrow> holeElement \<Rightarrow> hole list \<Rightarrow> hole list" where
  "initHole doc el acc =
     (let h = \<lparr> ident = ''hole'' @ decimal (length acc + 1), element = True,
                posX = parseIntOr0 (styleLeft el), posY = parseIntOr0 (styleTop el),
                radius = HOLE_RADIUS, isActive = active el \<rparr>;
          h' = (case translate el of
                  None \<Rightarrow> h
                | Some (a, b) \<Rightarrow>
                    (case board doc of
                       None \<Rightarrow> h
                     | Some (w, ht) \<Rightarrow> h\<lparr>posX := w * (a / 100), posY := ht * (b / 100)\<rparr>))
      in acc @ [h'])"

definition initializeHoles :: "document \<Rightarrow> engine \<Rightarrow> engine" where
  "initializeHoles doc e = e\<lparr>holes := fold (initHole doc) (holeElements doc) []\<rparr>"

text \<open>
  \<open>initMeteorite\<close> is the body of the \<^verbatim>\<open>forEach\<close> of \<^verbatim>\<open>initializeMeteorites\<close>. It draws
  three random numbers, for the two components of the velocity and the rotation speed.
\<close>

definition initMeteorite :: "style \<Rightarrow> meteorite list \<times> real stream \<Rightarrow> meteorite list \<times> real stream"
  where
  "initMeteorite el acc =
     (let ms = fst acc; rs = snd acc;
          r1 = shd rs; r2 = shd (stl rs); r3 = shd (stl (stl rs))
      in (ms @ [\<lparr> ident = ''meteorite'' @ decimal (length ms + 1), element = True,
                   posX = parseIntOr0 (styleLeft el), posY = parseIntOr0 (styleTop el),
                   radius = METEORITE_RADIUS,
                   velocity = ((r1 - 0.5) * 2, (r2 - 0.5) * 2), rotation = 0,
                   rotationSpeed = (r3 - 0.5) * 4 \<rparr>],
          stl (stl (stl rs))))"

definition initializeMeteorites :: "document \<Rightarrow> engine \<Rightarrow> engine" where
  "initializeMeteorites doc e =
     (let r = fold initMeteorite (meteoriteElements doc) ([], randomSource e)
      in e\<lparr>meteorites := fst r, randomSource := snd r\<rparr>)"

subsection \<open>Choosing the active hole\<close>

text \<open>
  \<^verbatim>\<open>setActiveHole\<close>: clear the flag of every hole that has an element, draw a random
  index, and mark the hole there, if there is one and it has an element.
\<close>

definition clearActive :: "hole \<Rightarrow> hole" where
  "clearActive h = (if element h then h\<lparr>isActive := False\<rparr> else h)"

definition setActiveHole :: "engine \<Rightarrow> engine" where
  "setActiveHole e =
     (let hs = map clearActive (holes e);
          randomIndex = \<lfloor>shd (randomSource e) * real (length hs)\<rfloor>;
          e1 = e\<lparr>holes := hs, randomSource := stl (randomSource e)\<rparr>
      in case elemAt hs randomIndex of
           None \<Rightarrow> e1
         | Some h \<Rightarrow>
             if element h
             then e1\<lparr>holes := hs[nat randomIndex := h\<lparr>isActive := True\<rparr>],
                     activeHole := Some (nat randomIndex)\<rparr>
             else e1)"

text \<open>\<^verbatim>\<open>initialize\<close>, at the time \<open>now\<close>.\<close>

definition initialize :: "document \<Rightarrow> real \<Rightarrow> engine \<Rightarrow> engine" where
  "initialize doc now e =
     (setActiveHole (initializeMeteorites doc (initializeHoles doc (initializeStars doc e))))
       \<lparr>lastUpdateTime := now\<rparr>"

subsection \<open>The callbacks of the game\<close>

text \<open>
  \<^verbatim>\<open>updateScore\<close> of \<^verbatim>\<open>src/game.js\<close> adds the points, has the display updated and then
  calls \<^verbatim>\<open>this.achievementManager.checkScoreAchievement\<close>. The class \<^verbatim>\<open>AchievementManager\<close>
  has no method of that name, and nothing else defines one: the call throws a
  \<^verbatim>\<open>TypeError\<close>, after the points were added.
\<close>

definition updateScore :: "int \<Rightarrow> game \<Rightarrow> game outcome" where
  "updateScore points g = Throws TypeError (g\<lparr>score := score g + points\<rparr>)"

text \<open>
  \<^verbatim>\<open>onStarBounce\<close>, \<^verbatim>\<open>onStarInHole\<close> and \<^verbatim>\<open>onStarHitMeteorite\<close>. \<open>received\<close> records that
  the callback was entered. \<^verbatim>\<open>onStarBounce\<close> only plays a sound. The other two call
  \<^verbatim>\<open>updateScore\<close> first; the sound, the vibration and the notification that follow it
  change nothing of this state. None of the three calls back into the engine.
\<close>

definition onStarBounce :: "string \<Rightarrow> game \<Rightarrow> game" where
  "onStarBounce starId g = g\<lparr>received := received g @ [StarBounce starId]\<rparr>"

definition onStarInHole :: "string \<Rightarrow> game \<Rightarrow> game outcome" where
  "onStarInHole starId g = updateScore 100 (g\<lparr>received := received g @ [StarInHole starId]\<rparr>)"

definition onStarHitMeteorite :: "string \<Rightarrow> game \<Rightarrow> game outcome" where
  "onStarHitMeteorite starId g =
     updateScore (- 50) (g\<lparr>received := received g @ [StarHitMeteorite starId]\<rparr>)"

subsection \<open>Shooting\<close>

text \<open>
  \<^verbatim>\<open>shootStar(gameState, dragDistance, dragTime)\<close>. \<^verbatim>\<open>!selectedStar\<close> holds of
  \<^verbatim>\<open>null\<close> and of the empty string. \<^verbatim>\<open>find\<close> returns a reference to the first star with
  the identity; the model keeps its index and writes the star back there.
\<close>

definition shootStar :: "game \<Rightarrow> real \<Rightarrow> real \<Rightarrow> engine \<Rightarrow> engine" where
  "shootStar gameState dragDistance dragTime e =
     (case selectedStar gameState of
        None \<Rightarrow> e
      | Some sel \<Rightarrow>
          if sel = [] \<or> \<not> enabled e then e
          else
            let i = findIndex (\<lambda>s. ident s = sel) (stars e) in
            (case elemAt (stars e) i of
               None \<Rightarrow> e
             | Some st \<Rightarrow>
                 let dx = fst (startPos gameState) - fst (currentPos gameState);
                     dy = snd (startPos gameState) - snd (currentPos gameState);
                     directionLength = sqrt (dx * dx + dy * dy)
                 in if directionLength = 0 then e
                    else
                      let power = min (dragDistance * POWER_FACTOR) MAX_VELOCITY;
                          vx = (dx / directionLength) * power * (1 / mass st);
                          vy = (dy / directionLength) * power * (1 / mass st)
                      in e\<lparr>stars := (stars e)
                             [nat i := st\<lparr>velocity := (vx, vy), moving := True,
                                          inHole := False\<rparr>]\<rparr>))"



text \<open>
  \<^verbatim>\<open>handleMouseUp\<close> of \<^verbatim>\<open>src/game.js\<close>, the only caller of \<^verbatim>\<open>shootStar\<close>, at the time
  \<open>dragEndTime\<close>: it passes the length of the drag as \<^verbatim>\<open>dragDistance\<close>, and shoots only
  when that length exceeds 10.
\<close>

fun handleMouseUp :: "real \<Rightarrow> game \<times> engine \<Rightarrow> game \<times> engine" where
  "handleMouseUp dragEndTime (g, e) =
     (if \<not> gameActive g \<or> \<not> dragging g then (g, e)
      else
        let dragTime = dragEndTime - dragStartTime g;
            dx = fst (startPos g) - fst (currentPos g);
            dy = snd (startPos g) - snd (currentPos g);
            dragDistance = sqrt (dx * dx + dy * dy);
            e1 = (if dragDistance > 10 then shootStar g dragDistance dragTime e else e)
        in (g\<lparr>dragging := False\<rparr>, e1))"

subsection \<open>Collisions of a star\<close>

fun checkBoundaryCollisions :: "game \<times> star \<Rightarrow> game \<times> star" where
  "checkBoundaryCollisions (g, st) =
     (let r = radius st;
          (g1, s1) =
            (if posX st < r
             then (onStarBounce (ident st) g,
                   st\<lparr>posX := r,
                      velocity := (fst (velocity st) * (- restitution st), snd (velocity st))\<rparr>)
             else if posX st > boardWidth - r
             then (onStarBounce (ident st) g,
                   st\<lparr>posX := boardWidth - r,
                      velocity := (fst (velocity st) * (- restitution st), snd (velocity st))\<rparr>)
             else (g, st))
      in if posY s1 < r
         then (onStarBounce (ident s1) g1,
               s1\<lparr>posY := r,
                  velocity := (fst (velocity s1), snd (velocity s1) * (- restitution s1))\<rparr>)
         else if posY s1 > boardHeight - r
         then (onStarBounce (ident s1) g1,
               s1\<lparr>posY := boardHeight - r,
                  velocity := (fst (velocity s1), snd (velocity s1) * (- restitution s1))\<rparr>)
         else (g1, s1))"

text \<open>
  \<open>checkHole\<close> is the body of the \<^verbatim>\<open>forEach\<close> of \<^verbatim>\<open>checkHoleCollisions\<close>. The star is
  settled before the game is notified.
\<close>

fun checkHole :: "hole \<Rightarrow> game \<times> star \<Rightarrow> (game \<times> star) outcome" where
  "checkHole h (g, st) =
     (let dx = posX st - posX h;
          dy = posY st - posY h;
          distance = sqrt (dx * dx + dy * dy)
      in if distance < collisionThreshold
         then (if isActive h
               then (let st' = st\<lparr>inHole := True, moving := False, velocity := (0, 0)\<rparr>
                     in case onStarInHole (ident st) g of
                          Throws err g' \<Rightarrow> Throws err (g', st')
                        | Returns g' \<Rightarrow> Returns (g', st'))
               else (let angle = atan2 dy dx; power = 2
                     in Returns (g, st\<lparr>velocity := (cos angle * power, sin angle * power)\<rparr>)))
         else Returns (g, st))"

definition checkHoleCollisions :: "engine \<Rightarrow> game \<times> star \<Rightarrow> (game \<times> star) outcome" where
  "checkHoleCollisions e w = forEach checkHole (holes e) w"

text \<open>
  \<open>checkMeteorite\<close> is the body of the \<^verbatim>\<open>forEach\<close> of \<^verbatim>\<open>checkMeteoriteCollisions\<close>. The
  velocity is written before the game is notified.
\<close>

fun checkMeteorite :: "meteorite \<Rightarrow> game \<times> star \<Rightarrow> (game \<times> star) outcome" where
  "checkMeteorite m (g, st) =
     (let dx = posX st - posX m;
          dy = posY st - posY m;
          distance = sqrt (dx * dx + dy * dy)
      in if distance < radius st + radius m
         then (let angle = atan2 dy dx; power = 5;
                   st' = st\<lparr>velocity := (cos angle * power, sin angle * power)\<rparr>
               in case onStarHitMeteorite (ident st) g of
                    Throws err g' \<Rightarrow> Throws err (g', st')
                  | Returns g' \<Rightarrow> Returns (g', st'))
         else Returns (g, st))"

definition checkMeteoriteCollisions :: "engine \<Rightarrow> game \<times> star \<Rightarrow> (game \<times> star) outcome"
  where
  "checkMeteoriteCollisions e w = forEach checkMeteorite (meteorites e) w"

subsection \<open>The update pass\<close>

text \<open>
  \<open>updateStar\<close> is the body of the \<^verbatim>\<open>forEach\<close> of \<^verbatim>\<open>updateStars\<close>. An exception of a
  collision check leaves the star as the check left it: the stopping rule is not reached.
\<close>

fun updateStar :: "real \<Rightarrow> engine \<Rightarrow> game \<times> star \<Rightarrow> (game \<times> star) outcome" where
  "updateStar deltaTime e (g, st) =
     (if \<not> moving st \<or> inHole st then Returns (g, st)
      else
        let vx = fst (velocity st) * friction;
            vy = snd (velocity st) * friction;
            s1 = st\<lparr>velocity := (vx, vy),
                    posX := posX st + vx * deltaTime,
                    posY := posY st + vy * deltaTime,
                    rotation := rotation st + (vx * 0.1) * deltaTime\<rparr>
        in case checkHoleCollisions e (checkBoundaryCollisions (g, s1)) of
             Throws err w \<Rightarrow> Throws err w
           | Returns w2 \<Rightarrow>
               (case checkMeteoriteCollisions e w2 of
                  Throws err w \<Rightarrow> Throws err w
                | Returns w3 \<Rightarrow>
                    let g3 = fst w3; s3 = snd w3;
                        speed = sqrt (fst (velocity s3) * fst (velocity s3)
                                      + snd (velocity s3) * snd (velocity s3))
                    in if speed < minSpeed
                       then Returns (g3, s3\<lparr>velocity := (0, 0), moving := False\<rparr>)
                       else Returns (g3, s3)))"

text \<open>
  The \<^verbatim>\<open>forEach\<close> of \<^verbatim>\<open>updateStars\<close> over the stars, which are updated in place: after
  an exception the stars not yet visited are as they were.
\<close>

fun updateStarList ::
  "real \<Rightarrow> engine \<Rightarrow> game \<Rightarrow> star list \<Rightarrow> (game \<times> star list) outcome" where
  "updateStarList deltaTime e g [] = Returns (g, [])"
| "updateStarList deltaTime e g (st # sts) =
     (case updateStar deltaTime e (g, st) of
        Throws err w \<Rightarrow> Throws err (fst w, snd w # sts)
      | Returns w \<Rightarrow>
          (case updateStarList deltaTime e (fst w) sts of
             Throws err r \<Rightarrow> Throws err (fst r, snd w # snd r)
           | Returns r \<Rightarrow> Returns (fst r, snd w # snd r)))"

fun updateStars :: "real \<Rightarrow> game \<times> engine \<Rightarrow> (game \<times> engine) outcome" where
  "updateStars deltaTime (g, e) =
     (case updateStarList deltaTime e g (stars e) of
        Throws err r \<Rightarrow> Throws err (fst r, e\<lparr>stars := snd r\<rparr>)
      | Returns r \<Rightarrow> Returns (fst r, e\<lparr>stars := snd r\<rparr>))"

text \<open>\<open>updateMeteorite\<close> is the body of the \<^verbatim>\<open>forEach\<close> of \<^verbatim>\<open>updateMeteorites\<close>.\<close>

definition updateMeteorite :: "real \<Rightarrow> meteorite \<Rightarrow> meteorite" where
  "updateMeteorite deltaTime m =
     (let m1 = m\<lparr>posX := posX m + fst (velocity m) * deltaTime,
                 posY := posY m + snd (velocity m) * deltaTime,
                 rotation := rotation m + rotationSpeed m * 0.01 * deltaTime\<rparr>;
          r = radius m1;
          m2 = (if posX m1 < r \<or> posX m1 > boardWidth - r
                then m1\<lparr>velocity := (fst (velocity m1) * (- 1), snd (velocity m1)),
                        posX := (if posX m1 < r then r else boardWidth - r)\<rparr>
                else m1)
      in if posY m2 < r \<or> posY m2 > boardHeight - r
         then m2\<lparr>velocity := (fst (velocity m2), snd (velocity m2) * (- 1)),
                 posY := (if posY m2 < r then r else boardHeight - r)\<rparr>
         else m2)"

definition updateMeteorites :: "real \<Rightarrow> engine \<Rightarrow> engine" where
  "updateMeteorites deltaTime e = e\<lparr>meteorites := map (updateMeteorite deltaTime) (meteorites e)\<rparr>"

text \<open>\<^verbatim>\<open>updateCamera\<close>; \<^verbatim>\<open>game.updateCameraPosition\<close> only writes a style of the board.\<close>

fun updateCamera :: "game \<times> engine \<Rightarrow> game \<times> engine" where
  "updateCamera (g, e) =
     (let movingStars = filter (\<lambda>s. moving s \<and> \<not> inHole s) (stars e)
      in if length movingStars > 0
         then
           let totalX = foldl (\<lambda>t s. t + posX s) 0 movingStars;
               totalY = foldl (\<lambda>t s. t + posY s) 0 movingStars;
               avgX = totalX / real (length movingStars);
               avgY = totalY / real (length movingStars);
               cameraSpeed = 0.05
           in (g\<lparr>camera := (fst (camera g) + (avgX - fst (camera g)) * cameraSpeed,
                             snd (camera g) + (avgY - snd (camera g)) * cameraSpeed)\<rparr>, e)
         else (g, e))"

text \<open>
  The time multiplier of \<^verbatim>\<open>update\<close> (its lines on \<^verbatim>\<open>deltaTime\<close>), at the time
  \<open>currentTime\<close> that \<^verbatim>\<open>performance.now()\<close> returns.
\<close>

definition frameDelta :: "real \<Rightarrow> engine \<Rightarrow> real" where
  "frameDelta currentTime e =
     (let deltaTime = (currentTime - lastUpdateTime e) / 16.67;
          deltaTime = (if deltaTime > 3 then 1 else deltaTime)
      in if \<not> useDeltaTime e then 1 else deltaTime)"

text \<open>
  The three passes of \<^verbatim>\<open>update\<close>, run with a given multiplier. After an exception of
  \<^verbatim>\<open>updateStars\<close> the meteorites and the camera are not updated.
\<close>

definition advance :: "real \<Rightarrow> game \<times> engine \<Rightarrow> (game \<times> engine) outcome" where
  "advance deltaTime w =
     (case updateStars deltaTime w of
        Throws err w1 \<Rightarrow> Throws err w1
      | Returns w1 \<Rightarrow> Returns (updateCamera (fst w1, updateMeteorites deltaTime (snd w1))))"

fun update :: "real \<Rightarrow> game \<times> engine \<Rightarrow> (game \<times> engine) outcome" where
  "update currentTime (g, e) =
     (if \<not> enabled e then Returns (g, e)
      else advance (frameDelta currentTime e) (g, e\<lparr>lastUpdateTime := currentTime\<rparr>))"

subsection \<open>Selection and switches\<close>

text \<open>
  \<^verbatim>\<open>switchActiveStar\<close>. The first component is the value the call returns, \<open>None\<close> for
  \<^verbatim>\<open>undefined\<close>: the method has no \<^verbatim>\<open>return\<close> with a value.
\<close>

fun switchActiveStar :: "game \<times> engine \<Rightarrow> string option \<times> game" where
  "switchActiveStar (g, e) =
     (let availableStars = filter (\<lambda>s. \<not> moving s \<and> \<not> inHole s) (stars e)
      in if length availableStars = 0 then (None, g)
         else
           let selectedIndex =
                 (case selectedStar g of
                    None \<Rightarrow> - 1
                  | Some sel \<Rightarrow>
                      if sel = [] then - 1
                      else findIndex (\<lambda>s. ident s = sel) availableStars);
               nextIndex = (selectedIndex + 1) mod int (length availableStars);
               nextStar = availableStars ! nat nextIndex
           in (None, g\<lparr>selectedStar := Some (ident nextStar)\<rparr>))"

text \<open>\<^verbatim>\<open>togglePhysics\<close> returns the new value of the flag.\<close>

definition togglePhysics :: "engine \<Rightarrow> bool \<times> engine" where
  "togglePhysics e = (\<not> enabled e, e\<lparr>enabled := \<not> enabled e\<rparr>)"


subsection \<open>Notions used in the properties\<close>

text \<open>The speed of a star, as \<^verbatim>\<open>updateStars\<close> computes it for the stopping rule.\<close>

definition speed :: "star \<Rightarrow> real" where
  "speed st = sqrt (fst (velocity st) * fst (velocity st) + snd (velocity st) * snd (velocity st))"

text \<open>A star lies on the board: its centre keeps a radius away from the four edges.\<close>

definition inBounds :: "star \<Rightarrow> bool" where
  "inBounds st \<longleftrightarrow>
     radius st \<le> posX st \<and> posX st \<le> boardWidth - radius st \<and>
     radius st \<le> posY st \<and> posY st \<le> boardHeight - radius st"

text \<open>
  A step of a star with multiplier \<open>deltaTime\<close> is free of contact: where friction and
  displacement take the star, none of the tests of \<^verbatim>\<open>checkBoundaryCollisions\<close>,
  \<^verbatim>\<open>checkHoleCollisions\<close> and \<^verbatim>\<open>checkMeteoriteCollisions\<close> fires.
\<close>

definition contactFree :: "real \<Rightarrow> engine \<Rightarrow> star \<Rightarrow> bool" where
  "contactFree deltaTime e st =
     (let px = posX st + fst (velocity st) * friction * deltaTime;
          py = posY st + snd (velocity st) * friction * deltaTime
      in \<not> px < radius st \<and> \<not> px > boardWidth - radius st \<and>
         \<not> py < radius st \<and> \<not> py > boardHeight - radius st \<and>
         list_all (\<lambda>h. \<not> sqrt ((px - posX h) * (px - posX h) + (py - posY h) * (py - posY h))
                          < collisionThreshold) (holes e) \<and>
         list_all (\<lambda>m. \<not> sqrt ((px - posX m) * (px - posX m) + (py - posY m) * (py - posY m))
                          < radius st + radius m) (meteorites e))"

text \<open>
  Repeated calls of \<^verbatim>\<open>update\<close>, one for each time of the list; a call that throws
  leaves its state to the next call.
\<close>

fun run :: "real list \<Rightarrow> game \<times> engine \<Rightarrow> game \<times> engine" where
  "run [] w = w"
| "run (t # ts) w = run ts (stateOf (update t w))"

text \<open>
  Along such a run the star at index \<open>i\<close> has no contact: each step that integrates it
  is free of contact.
\<close>

fun contactFreeRun :: "real list \<Rightarrow> nat \<Rightarrow> game \<times> engine \<Rightarrow> bool" where
  "contactFreeRun [] i w = True"
| "contactFreeRun (t # ts) i w =
     ((moving (stars (snd w) ! i) \<and> \<not> inHole (stars (snd w) ! i)
         \<longrightarrow> contactFree (frameDelta t (snd w)) (snd w) (stars (snd w) ! i))
      \<and> contactFreeRun ts i (stateOf (update t w)))"

text \<open>A star that is settled has no velocity and is not moving.\<close>

definition atRestIfSettled :: "star \<Rightarrow> bool" where
  "atRestIfSettled st \<longleftrightarrow> (inHole st \<longrightarrow> velocity st = (0, 0) \<and> \<not> moving st)"

text \<open>Every call of a run returns: no callback throws in it.\<close>

fun runReturns :: "real list \<Rightarrow> game \<times> engine \<Rightarrow> bool" where
  "runReturns [] w = True"
| "runReturns (t # ts) w = (returned (update t w) \<and> runReturns ts (stateOf (update t w)))"

subsection \<open>A board to run the engine on\<close>

text \<open>A random source, all of whose values are in the range of \<^verbatim>\<open>Math.random()\<close>.\<close>

definition halves :: "real stream" where
  "halves = siterate (\<lambda>r. r / 2) (1 / 2)"

definition yellowStar :: "real \<Rightarrow> real \<Rightarrow> point \<Rightarrow> bool \<Rightarrow> star" where
  "yellowStar px py v mv =
     \<lparr> ident = ''star1'', element = True, posX = px, posY = py, radius = STAR_RADIUS,
       velocity = v, rotation = 0, stype = yellow, mass = 1, restitution = 0.8,
       moving = mv, inHole = False \<rparr>"

definition blueStar :: "real \<Rightarrow> real \<Rightarrow> point \<Rightarrow> bool \<Rightarrow> star" where
  "blueStar px py v mv =
     \<lparr> ident = ''star2'', element = True, posX = px, posY = py, radius = STAR_RADIUS,
       velocity = v, rotation = 0, stype = blue, mass = 0.8, restitution = 0.9,
       moving = mv, inHole = False \<rparr>"

definition redStar :: "real \<Rightarrow> real \<Rightarrow> point \<Rightarrow> bool \<Rightarrow> star" where
  "redStar px py v mv =
     \<lparr> ident = ''star3'', element = True, posX = px, posY = py, radius = STAR_RADIUS,
       velocity = v, rotation = 0, stype = red, mass = 1.2, restitution = 0.7,
       moving = mv, inHole = False \<rparr>"

definition holeAt :: "string \<Rightarrow> real \<Rightarrow> real \<Rightarrow> bool \<Rightarrow> hole" where
  "holeAt n px py a =
     \<lparr> ident = n, element = True, posX = px, posY = py, radius = HOLE_RADIUS, isActive = a \<rparr>"

definition meteoriteAt :: "real \<Rightarrow> real \<Rightarrow> meteorite" where
  "meteoriteAt px py =
     \<lparr> ident = ''meteorite1'', element = True, posX = px, posY = py,
       radius = METEORITE_RADIUS, velocity = (0, 0), rotation = 0, rotationSpeed = 0 \<rparr>"

text \<open>The state of the game when it is created (\<^verbatim>\<open>src/game.js\<close>, the constructor).\<close>

definition newGame :: game where
  "newGame =
     \<lparr> gameActive = False, gamePaused = False, selectedStar = Some ''star1'', startPos = (0, 0),
       currentPos = (0, 0), dragging = False, dragStartTime = 0,
       camera = (800, 400), score = 0, received = [] \<rparr>"

text \<open>
  A yellow star shot to the right at speed 5 from \<open>(100, 100)\<close>, with the active hole at
  \<open>(110, 100)\<close> and an inactive one far away.
\<close>

definition captureBoard :: engine where
  "captureBoard =
     (constructor halves)
       \<lparr> stars := [yellowStar 100 100 (5, 0) True],
         holes := [holeAt ''hole1'' 110 100 True, holeAt ''hole2'' 1400 600 False],
         activeHole := Some 0 \<rparr>"

text \<open>The same, with a meteorite at \<open>(90, 100)\<close>.\<close>

definition hazardBoard :: engine where
  "hazardBoard = captureBoard\<lparr>meteorites := [meteoriteAt 90 100]\<rparr>"

text \<open>The same as \<open>captureBoard\<close>, with the inactive hole at \<open>(120, 100)\<close>.\<close>

definition twoHoleBoard :: engine where
  "twoHoleBoard =
     captureBoard\<lparr>holes := [holeAt ''hole1'' 110 100 True, holeAt ''hole2'' 120 100 False]\<rparr>"

text \<open>Three stars at their base positions, with velocities and flags to choose.\<close>

definition openBoard :: "point \<Rightarrow> bool \<Rightarrow> point \<Rightarrow> bool \<Rightarrow> engine" where
  "openBoard v1 m1 v2 m2 =
     (constructor halves)
       \<lparr> stars := [yellowStar 800 400 v1 m1, blueStar 850 450 v2 m2, redStar 750 450 (0, 0) False] \<rparr>"

text \<open>A page whose first star has no position in its style, and no other star.\<close>

definition barePage :: document where
  "barePage =
     \<lparr> getElementById = (\<lambda>n. if n = ''star1'' then Some \<lparr>styleLeft = None, styleTop = None\<rparr> else None),
       holeElements = [], meteoriteElements = [], board = None \<rparr>"

text \<open>A drag of length 100 to the left: pointer down at \<open>(100, 0)\<close>, released at the origin.\<close>

definition dragLeft :: game where
  "dragLeft = newGame\<lparr>startPos := (100, 0), currentPos := (0, 0)\<rparr>"

text \<open>A yellow star next to the left edge, moving towards it.\<close>

definition wallBoard :: engine where
  "wallBoard = (constructor halves)\<lparr>stars := [yellowStar 20 400 (- 10, 0) True]\<rparr>"



text \<open>
  A yellow star at the left edge that a meteorite has just pushed towards the edge, and
  a blue star in the open, moving slowly.
\<close>

definition pinnedBoard :: engine where
  "pinnedBoard =
     (constructor halves)
       \<lparr> stars := [yellowStar 16 400 (- 5, 0) True, blueStar 850 450 (0.52, 0) True],
         meteorites := [meteoriteAt 40 400] \<rparr>"

text \<open>
  The states that are \<open>pinnedBoard\<close> up to the clock, the rotation of the first star and
  the game.
\<close>

definition pinned :: "game \<times> engine \<Rightarrow> bool" where
  "pinned w \<longleftrightarrow>
     enabled (snd w) \<and> useDeltaTime (snd w) \<and> holes (snd w) = []
     \<and> meteorites (snd w) = [meteoriteAt 40 400] \<and> length (stars (snd w)) = 2
     \<and> (stars (snd w) ! 0)\<lparr>rotation := 0\<rparr> = yellowStar 16 400 (- 5, 0) True
     \<and> stars (snd w) ! 1 = blueStar 850 450 (0.52, 0) True"

subsection \<open>The states the program reaches\<close>



text \<open>The equations of the larger functions are unfolded by name only.\<close>

declare checkBoundaryCollisions.simps [simp del]
declare checkHole.simps [simp del]
declare checkMeteorite.simps [simp del]
declare updateStar.simps [simp del]
declare updateStars.simps [simp del]
declare updateCamera.simps [simp del]
declare update.simps [simp del]
declare switchActiveStar.simps [simp del]
declare handleMouseUp.simps [simp del]

section \<open>Properties\<close>

subsection \<open>Auxiliary facts\<close>

lemmas board_defs = captureBoard_def hazardBoard_def twoHoleBoard_def openBoard_def wallBoard_def
  pinnedBoard_def constructor_def yellowStar_def blueStar_def redStar_def holeAt_def
  meteoriteAt_def newGame_def dragLeft_def

lemmas const_defs = friction_def minSpeed_def collisionThreshold_def STAR_RADIUS_def
  HOLE_RADIUS_def METEORITE_RADIUS_def boardWidth_def boardHeight_def MAX_VELOCITY_def
  POWER_FACTOR_def

lemmas place_defs = friction_def collisionThreshold_def STAR_RADIUS_def
  HOLE_RADIUS_def METEORITE_RADIUS_def boardWidth_def boardHeight_def

lemmas step_defs = update.simps advance_def updateStars.simps updateStar.simps
  checkBoundaryCollisions.simps checkHoleCollisions_def checkMeteoriteCollisions_def
  checkHole.simps checkMeteorite.simps updateMeteorites_def updateMeteorite_def
  updateCamera.simps frameDelta_def onStarBounce_def onStarInHole_def onStarHitMeteorite_def
  updateScore_def

lemma sqrt_less_iff: "0 < c \<Longrightarrow> sqrt a < c \<longleftrightarrow> a < c * c"
proof -
  assume c: "0 < c"
  have "sqrt (c * c) = c" using c by simp
  then have "sqrt a < c \<longleftrightarrow> sqrt a < sqrt (c * c)" by simp
  also have "\<dots> \<longleftrightarrow> a < c * c" by (rule real_sqrt_less_iff)
  finally show ?thesis .
qed

lemma speed_test: "sqrt a < minSpeed \<longleftrightarrow> a < 1 / 4"
  using sqrt_less_iff [of minSpeed a] by (simp add: minSpeed_def)

lemma halves_head: "shd halves = 1 / 2"
  by (simp add: halves_def)

text \<open>What a call of \<^verbatim>\<open>update\<close> leaves of the engine, whether it returns or throws.\<close>

lemma updateCamera_snd: "snd (updateCamera (g, e)) = e"
  by (simp add: updateCamera.simps Let_def)

lemma updateStars_state:
  "snd (stateOf (updateStars dt (g, e)))
     = e\<lparr>stars := snd (stateOf (updateStarList dt e g (stars e)))\<rparr>"
  by (simp add: updateStars.simps split: outcome.splits)

lemma updateStars_returned:
  "returned (updateStars dt (g, e)) = returned (updateStarList dt e g (stars e))"
  by (simp add: updateStars.simps split: outcome.splits)

lemma advance_returned: "returned (advance dt w) = returned (updateStars dt w)"
  by (simp add: advance_def split: outcome.splits)

lemma advance_state:
  "snd (stateOf (advance dt (g, e))) =
     (if returned (updateStars dt (g, e))
      then e\<lparr>stars := snd (stateOf (updateStarList dt e g (stars e))),
             meteorites := map (updateMeteorite dt) (meteorites e)\<rparr>
      else e\<lparr>stars := snd (stateOf (updateStarList dt e g (stars e)))\<rparr>)"
proof (cases "updateStars dt (g, e)")
  case (Returns w1)
  then have "snd w1 = e\<lparr>stars := snd (stateOf (updateStarList dt e g (stars e)))\<rparr>"
    using updateStars_state [of dt g e] by simp
  then show ?thesis
    using Returns updateCamera_snd [of "fst w1"]
    by (simp add: advance_def updateMeteorites_def)
next
  case (Throws err w1)
  then have "snd w1 = e\<lparr>stars := snd (stateOf (updateStarList dt e g (stars e)))\<rparr>"
    using updateStars_state [of dt g e] by simp
  then show ?thesis using Throws by (simp add: advance_def)
qed

lemma update_returned:
  "returned (update t (g, e))
     = (enabled e \<longrightarrow> returned (updateStarList (frameDelta t e) (e\<lparr>lastUpdateTime := t\<rparr>) g (stars e)))"
  by (simp add: update.simps advance_returned updateStars_returned)

lemma update_state:
  "snd (stateOf (update t (g, e))) =
     (if enabled e
      then (if returned (update t (g, e))
            then e\<lparr>lastUpdateTime := t,
                   stars := snd (stateOf (updateStarList (frameDelta t e)
                                            (e\<lparr>lastUpdateTime := t\<rparr>) g (stars e))),
                   meteorites := map (updateMeteorite (frameDelta t e)) (meteorites e)\<rparr>
            else e\<lparr>lastUpdateTime := t,
                   stars := snd (stateOf (updateStarList (frameDelta t e)
                                            (e\<lparr>lastUpdateTime := t\<rparr>) g (stars e)))\<rparr>)
      else e)"
  by (simp add: update.simps advance_state advance_returned)

lemma update_frame:
  "holes (snd (stateOf (update t (g, e)))) = holes e"
  "activeHole (snd (stateOf (update t (g, e)))) = activeHole e"
  "randomSource (snd (stateOf (update t (g, e)))) = randomSource e"
  "enabled (snd (stateOf (update t (g, e)))) = enabled e"
  "useDeltaTime (snd (stateOf (update t (g, e)))) = useDeltaTime e"
  by (simp_all add: update_state)

text \<open>Counting the elements that satisfy a predicate after one of them is replaced.\<close>

lemma filter_update_one:
  "\<forall>a\<in>set xs. \<not> P a \<Longrightarrow> i < length xs \<Longrightarrow> P b \<Longrightarrow> length (filter P (xs[i := b])) = 1"
proof (induction xs arbitrary: i)
  case Nil
  then show ?case by simp
next
  case (Cons a xs)
  show ?case
  proof (cases i)
    case 0
    with Cons.prems show ?thesis by (simp add: filter_empty_conv)
  next
    case (Suc j)
    with Cons show ?thesis by simp
  qed
qed

lemma clearActive_all:
  "\<forall>h\<in>set hs. element h \<Longrightarrow> \<forall>h\<in>set (map clearActive hs). \<not> isActive h \<and> element h"
  by (simp add: clearActive_def)

lemma randomIndex_range:
  assumes "0 \<le> r" "r < 1" "0 < n"
  shows "0 \<le> \<lfloor>r * real n\<rfloor> \<and> \<lfloor>r * real n\<rfloor> < int n"
proof -
  have "r * real n < real n" using assms by simp
  then have "\<lfloor>r * real n\<rfloor> < int n" by (simp add: floor_less_iff)
  moreover have "0 \<le> r * real n" using assms by simp
  ultimately show ?thesis by simp
qed

lemma setActiveHole_count:
  assumes "\<forall>h\<in>set (holes e). element h"
    and "0 \<le> shd (randomSource e)" and "shd (randomSource e) < 1"
  shows "length (filter isActive (holes (setActiveHole e))) = (if holes e = [] then 0 else 1)"
proof (cases "holes e = []")
  case True
  then show ?thesis by (simp add: setActiveHole_def elemAt_def)
next
  case False
  let ?hs = "map clearActive (holes e)"
  let ?i = "\<lfloor>shd (randomSource e) * real (length ?hs)\<rfloor>"
  have n: "0 < length (holes e)" using False by simp
  have rng: "0 \<le> ?i \<and> ?i < int (length ?hs)"
    using randomIndex_range [OF assms(2,3) n] by simp
  have cl: "\<forall>h\<in>set ?hs. \<not> isActive h \<and> element h"
    using clearActive_all [OF assms(1)] .
  have i: "nat ?i < length ?hs" using rng by linarith
  have el: "element (?hs ! nat ?i)" using cl i nth_mem by blast
  have "holes (setActiveHole e) = ?hs[nat ?i := (?hs ! nat ?i)\<lparr>isActive := True\<rparr>]"
    using rng el by (simp add: setActiveHole_def elemAt_def Let_def)
  moreover have "length (filter isActive (?hs[nat ?i := (?hs ! nat ?i)\<lparr>isActive := True\<rparr>])) = 1"
    by (rule filter_update_one) (use cl i in auto)
  ultimately show ?thesis using False by simp
qed

text \<open>The holes that \<^verbatim>\<open>initializeHoles\<close> creates all carry their element.\<close>

lemma initHole_element:
  "\<forall>h\<in>set acc. element h \<Longrightarrow> \<forall>h\<in>set (fold (initHole doc) els acc). element h"
proof (induction els arbitrary: acc)
  case Nil
  then show ?case by simp
next
  case (Cons el els)
  have "\<forall>h\<in>set (initHole doc el acc). element h"
    using Cons.prems by (auto simp: initHole_def Let_def split: option.splits)
  then show ?case using Cons.IH by simp
qed

lemma initializeHoles_element: "\<forall>h\<in>set (holes (initializeHoles doc e)). element h"
  using initHole_element [of "[]" doc "holeElements doc"] by (simp add: initializeHoles_def)

subsection \<open>The active hole\<close>

text \<open>
  C5. After a call of \<^verbatim>\<open>setActiveHole\<close> exactly one hole is active, and none when there
  is no hole at all (the call then changes no hole and fails in no way: the lookup of the
  drawn index finds nothing). A call of \<^verbatim>\<open>update\<close> after it, whether or not a star
  enters the target and whether it returns or throws, leaves the holes as they are, so the
  count stays. The holes carry
  their element, as the holes that \<^verbatim>\<open>initializeHoles\<close> creates do, and the random
  number is in the range of \<^verbatim>\<open>Math.random()\<close>.
\<close>

theorem exactly_one_active_hole:
  assumes "list_all element (holes e)"
    and "0 \<le> shd (randomSource e)" and "shd (randomSource e) < 1"
  shows "length (filter isActive (holes (setActiveHole e))) = (if holes e = [] then 0 else 1)
         \<and> holes (snd (stateOf (update t (g, setActiveHole e)))) = holes (setActiveHole e)
         \<and> list_all element (holes (initializeHoles doc e))"
proof -
  have "\<forall>h\<in>set (holes e). element h"
    using assms(1) by (simp add: list_all_iff)
  then show ?thesis
    using setActiveHole_count [OF _ assms(2,3)] initializeHoles_element [of doc e]
    by (simp add: update_frame list_all_iff)
qed

theorem exactly_one_active_hole_witness:
  "list_all element (holes captureBoard)
   \<and> 0 \<le> shd (randomSource captureBoard) \<and> shd (randomSource captureBoard) < 1
   \<and> length (filter isActive (holes (setActiveHole captureBoard))) = 1
   \<and> map isActive (holes (setActiveHole captureBoard)) = [False, True]
   \<and> holes (snd (stateOf (update 100 (newGame, setActiveHole captureBoard))))
       = holes (setActiveHole captureBoard)
   \<and> length (filter isActive (holes (setActiveHole (constructor halves)))) = 0"
proof -
  have h: "list_all element (holes captureBoard)"
    by (simp add: board_defs)
  have r: "0 \<le> shd (randomSource captureBoard)" "shd (randomSource captureBoard) < 1"
    by (simp_all add: board_defs halves_head)
  have m: "map isActive (holes (setActiveHole captureBoard)) = [False, True]"
    by (simp add: setActiveHole_def elemAt_def clearActive_def board_defs halves_head)
  have ne: "holes captureBoard \<noteq> []"
    by (simp add: board_defs)
  have h0: "list_all element (holes (constructor halves))"
    by (simp add: constructor_def)
  have r0: "0 \<le> shd (randomSource (constructor halves))"
    "shd (randomSource (constructor halves)) < 1"
    by (simp_all add: constructor_def halves_head)
  have e0: "holes (constructor halves) = []"
    by (simp add: constructor_def)
  show ?thesis
    using exactly_one_active_hole [OF h r, of 100 newGame barePage]
      exactly_one_active_hole [OF h0 r0, of 100 newGame barePage] h r m ne e0
    by simp
qed

subsection \<open>A disabled engine\<close>

text \<open>
  C10. While the flag \<open>enabled\<close> is false, a call of \<^verbatim>\<open>update\<close> changes nothing: it
  returns, and the engine (its stars, meteorites, holes and clock) and the game (its
  camera, its score and the events it has received) come back as they were.
\<close>

theorem update_disabled_noop:
  assumes "\<not> enabled e"
  shows "update currentTime (g, e) = Returns (g, e)"
  using assms by (simp add: update.simps)

theorem update_disabled_noop_witness:
  "fst (togglePhysics hazardBoard) = False
   \<and> \<not> enabled (snd (togglePhysics hazardBoard))
   \<and> update 100 (newGame, snd (togglePhysics hazardBoard))
       = Returns (newGame, snd (togglePhysics hazardBoard))
   \<and> update 100 (newGame, hazardBoard) \<noteq> Returns (newGame, hazardBoard)"
proof -
  have d: "\<not> enabled (snd (togglePhysics hazardBoard))"
    by (simp add: togglePhysics_def board_defs)
  have t: "fst (togglePhysics hazardBoard) = False"
    by (simp add: togglePhysics_def board_defs)
  have "\<not> returned (update 100 (newGame, hazardBoard))"
    by (simp add: board_defs place_defs step_defs Let_def sqrt_less_iff)
  then have c: "update 100 (newGame, hazardBoard) \<noteq> Returns (newGame, hazardBoard)"
    by auto
  show ?thesis
    using update_disabled_noop [OF d, of 100 newGame] d t c by simp
qed

subsection \<open>Shooting a star\<close>

lemma findIndex_bounds: "- 1 \<le> findIndex P xs \<and> findIndex P xs < int (length xs)"
  by (induction xs) (auto simp: Let_def)

lemma findIndex_none: "findIndex P xs < 0 \<longleftrightarrow> (\<forall>a\<in>set xs. \<not> P a)"
  using findIndex_bounds [of P] by (induction xs) (auto simp: Let_def)

lemma findIndex_first:
  "i < length xs \<Longrightarrow> P (xs ! i) \<Longrightarrow> \<forall>j<i. \<not> P (xs ! j) \<Longrightarrow> findIndex P xs = int i"
proof (induction xs arbitrary: i)
  case Nil
  then show ?case by simp
next
  case (Cons a xs)
  show ?case
  proof (cases i)
    case 0
    with Cons.prems show ?thesis by simp
  next
    case (Suc k)
    have na: "\<not> P a" using Cons.prems(3) Suc by auto
    have "\<forall>j<k. \<not> P (xs ! j)" using Cons.prems(3) Suc by auto
    then have "findIndex P xs = int k" using Cons.IH [of k] Cons.prems Suc by simp
    then show ?thesis using na Suc by (simp add: Let_def)
  qed
qed

lemma sqrt_zero_iff: "sqrt (a * a + b * b) = 0 \<longleftrightarrow> a = 0 \<and> b = 0"
  by (simp add: sum_squares_eq_zero_iff)


lemma shootStar_found:
  assumes "selectedStar gs = Some sid" "sid \<noteq> []" "enabled e"
    and "i < length (stars e)" "ident (stars e ! i) = sid" "\<forall>j<i. ident (stars e ! j) \<noteq> sid"
    and "sqrt ((fst (startPos gs) - fst (currentPos gs)) * (fst (startPos gs) - fst (currentPos gs))
             + (snd (startPos gs) - snd (currentPos gs)) * (snd (startPos gs) - snd (currentPos gs))) \<noteq> 0"
  shows "shootStar gs d t e =
     e\<lparr>stars := (stars e)[i := (stars e ! i)
        \<lparr>velocity :=
           (let dx = fst (startPos gs) - fst (currentPos gs);
                dy = snd (startPos gs) - snd (currentPos gs);
                len = sqrt (dx * dx + dy * dy);
                power = min (d * POWER_FACTOR) MAX_VELOCITY
            in ((dx / len) * power * (1 / mass (stars e ! i)),
                (dy / len) * power * (1 / mass (stars e ! i)))),
         moving := True, inHole := False\<rparr>]\<rparr>"
proof -
  have "findIndex (\<lambda>s. ident s = sid) (stars e) = int i"
    using findIndex_first [of i "stars e" "\<lambda>s. ident s = sid"] assms(4,5,6) by simp
  then show ?thesis
    using assms(1,2,3,4,7) by (auto simp: shootStar_def elemAt_def Let_def)
qed

lemma speed_scaled:
  assumes "0 \<le> p" "a * a + b * b = 1"
  shows "sqrt ((a * p) * (a * p) + (b * p) * (b * p)) = p"
proof -
  have "(a * p) * (a * p) + (b * p) * (b * p) = (a * a + b * b) * (p * p)"
    by (simp add: algebra_simps)
  then have "sqrt ((a * p) * (a * p) + (b * p) * (b * p)) = sqrt (p * p)"
    using assms(2) by simp
  then show ?thesis using assms(1) by simp
qed

lemma unit_direction:
  assumes "sqrt (a * a + b * b) \<noteq> 0"
  shows "(a / sqrt (a * a + b * b)) * (a / sqrt (a * a + b * b))
         + (b / sqrt (a * a + b * b)) * (b / sqrt (a * a + b * b)) = 1"
proof -
  define l where "l = sqrt (a * a + b * b)"
  have nn: "0 \<le> a * a + b * b" by simp
  have sq: "l * l = a * a + b * b" unfolding l_def using nn by simp
  have lz: "l * l \<noteq> 0" using assms l_def by simp
  have "(a / l) * (a / l) + (b / l) * (b / l) = (a * a + b * b) / (l * l)"
    by (simp add: add_divide_distrib)
  also have "\<dots> = 1" using sq lz by simp
  finally show ?thesis unfolding l_def .
qed

lemma sqrt_10000: "sqrt 10000 = 100"
  by (rule real_sqrt_unique) simp_all

text \<open>
  C7. A shot at the first star with the selected identity, by an enabled engine, with the
  drag vector \<open>drag\<close> (from the point where the pointer went down to the point where it
  was released) and with its length \<open>d\<close> passed as \<^verbatim>\<open>dragDistance\<close>. When \<open>d\<close> is
  not zero the star gets the speed \<open>min (d * POWER_FACTOR) MAX_VELOCITY / mass\<close> in the
  direction of the negated drag vector, normalised, and is moving and not settled. When
  \<open>d\<close> is zero the call changes nothing, whatever distance is passed. The length of the
  drag is what \<^verbatim>\<open>handleMouseUp\<close> passes as \<^verbatim>\<open>dragDistance\<close>; it calls \<^verbatim>\<open>shootStar\<close> for
  a drag longer than 10 only.
\<close>

theorem shoot_velocity:
  assumes "selectedStar gs = Some sid" and "sid \<noteq> []" and "enabled e"
    and "i < length (stars e)" and "ident (stars e ! i) = sid"
    and "\<forall>j<i. ident (stars e ! j) \<noteq> sid"
    and "0 < mass (stars e ! i)"
    and "drag = (fst (currentPos gs) - fst (startPos gs), snd (currentPos gs) - snd (startPos gs))"
    and "d = sqrt (fst drag * fst drag + snd drag * snd drag)"
  shows "(d \<noteq> 0 \<longrightarrow>
           (let st' = stars (shootStar gs d dragTime e) ! i;
                power = min (d * POWER_FACTOR) MAX_VELOCITY / mass (stars e ! i)
            in velocity st' = (- (fst drag / d) * power, - (snd drag / d) * power)
               \<and> speed st' = power \<and> moving st' \<and> \<not> inHole st'))
         \<and> (d = 0 \<longrightarrow> shootStar gs dragDistance dragTime e = e)
         \<and> (gameActive gs \<and> dragging gs \<and> 10 < d \<longrightarrow>
              snd (handleMouseUp dragEndTime (gs, e))
                = shootStar gs d (dragEndTime - dragStartTime gs) e)
         \<and> (gameActive gs \<and> dragging gs \<and> d \<le> 10 \<longrightarrow>
              snd (handleMouseUp dragEndTime (gs, e)) = e)"
proof -
  let ?dx = "fst (startPos gs) - fst (currentPos gs)"
  let ?dy = "snd (startPos gs) - snd (currentPos gs)"
  let ?m = "mass (stars e ! i)"
  let ?p = "min (d * POWER_FACTOR) MAX_VELOCITY"
  have dxy: "?dx = - fst drag" "?dy = - snd drag" using assms(8) by simp_all
  have "?dx * ?dx + ?dy * ?dy = fst drag * fst drag + snd drag * snd drag"
    unfolding dxy by simp
  then have len: "sqrt (?dx * ?dx + ?dy * ?dy) = d" using assms(9) by simp
  have up: "gameActive gs \<and> dragging gs \<and> 10 < d \<longrightarrow>
              snd (handleMouseUp dragEndTime (gs, e))
                = shootStar gs d (dragEndTime - dragStartTime gs) e"
    by (simp add: handleMouseUp.simps Let_def len)
  have short: "gameActive gs \<and> dragging gs \<and> d \<le> 10 \<longrightarrow>
              snd (handleMouseUp dragEndTime (gs, e)) = e"
    by (simp add: handleMouseUp.simps Let_def len)
  have zero: "d = 0 \<longrightarrow> shootStar gs dragDistance dragTime e = e"
  proof
    assume "d = 0"
    then have "fst drag = 0 \<and> snd drag = 0"
      using assms(9) by (simp add: sum_squares_eq_zero_iff)
    then have "startPos gs = currentPos gs"
      using assms(8) by (simp add: prod_eq_iff)
    then show "shootStar gs dragDistance dragTime e = e"
      using assms(1) by (simp add: shootStar_def Let_def split: option.splits)
  qed
  have shot: "d \<noteq> 0 \<longrightarrow>
           (let st' = stars (shootStar gs d dragTime e) ! i;
                power = min (d * POWER_FACTOR) MAX_VELOCITY / mass (stars e ! i)
            in velocity st' = (- (fst drag / d) * power, - (snd drag / d) * power)
               \<and> speed st' = power \<and> moving st' \<and> \<not> inHole st')"
  proof
    assume nz: "d \<noteq> 0"
    have dpos: "0 \<le> d" using assms(9) by simp
    have ppos: "0 \<le> ?p / ?m"
      using dpos assms(7) by (simp add: POWER_FACTOR_def MAX_VELOCITY_def)
    define vx where "vx = (?dx / d) * (?p / ?m)"
    define vy where "vy = (?dy / d) * (?p / ?m)"
    have sh: "stars (shootStar gs d dragTime e) ! i =
        (stars e ! i)\<lparr>velocity := (vx, vy), moving := True, inHole := False\<rparr>"
      using shootStar_found [OF assms(1-6), of d dragTime] nz len assms(4)
      by (simp add: Let_def vx_def vy_def)
    have unit: "(?dx / d) * (?dx / d) + (?dy / d) * (?dy / d) = 1"
      using unit_direction [of ?dx ?dy] nz len by simp
    have sp: "sqrt (vx * vx + vy * vy) = ?p / ?m"
      unfolding vx_def vy_def by (rule speed_scaled [OF ppos unit])
    have neg: "\<And>a b q. a = - b \<Longrightarrow> (a / d) * q = - (b / d) * q" by simp
    have v: "vx = - (fst drag / d) * (?p / ?m)" "vy = - (snd drag / d) * (?p / ?m)"
      unfolding vx_def vy_def using dxy by (simp_all only: neg)
    show "let st' = stars (shootStar gs d dragTime e) ! i;
              power = min (d * POWER_FACTOR) MAX_VELOCITY / mass (stars e ! i)
          in velocity st' = (- (fst drag / d) * power, - (snd drag / d) * power)
             \<and> speed st' = power \<and> moving st' \<and> \<not> inHole st'"
      unfolding Let_def sh speed_def using sp v by simp
  qed
  show ?thesis using shot zero up short by blast
qed

theorem shoot_velocity_witness:
  "selectedStar dragLeft = Some ''star1'' \<and> enabled (openBoard (0, 0) False (0, 0) False)
   \<and> ident (stars (openBoard (0, 0) False (0, 0) False) ! 0) = ''star1''
   \<and> mass (stars (openBoard (0, 0) False (0, 0) False) ! 0) = 1
   \<and> currentPos dragLeft = (0, 0) \<and> startPos dragLeft = (100, 0)
   \<and> velocity (stars (shootStar dragLeft 100 250 (openBoard (0, 0) False (0, 0) False)) ! 0) = (12, 0)
   \<and> speed (stars (shootStar dragLeft 100 250 (openBoard (0, 0) False (0, 0) False)) ! 0) = 12
   \<and> moving (stars (shootStar dragLeft 100 250 (openBoard (0, 0) False (0, 0) False)) ! 0)
   \<and> shootStar newGame 100 250 (openBoard (0, 0) False (0, 0) False)
       = openBoard (0, 0) False (0, 0) False
   \<and> snd (handleMouseUp 250 (dragLeft\<lparr>gameActive := True, dragging := True\<rparr>,
                             openBoard (0, 0) False (0, 0) False))
       = shootStar (dragLeft\<lparr>gameActive := True, dragging := True\<rparr>) 100 250
           (openBoard (0, 0) False (0, 0) False)"
proof -
  let ?e = "openBoard (0, 0) False (0, 0) False"
  have a1: "selectedStar dragLeft = Some ''star1''" by (simp add: board_defs)
  have a2: "''star1'' \<noteq> []" by simp
  have a3: "enabled ?e" by (simp add: board_defs)
  have a4: "0 < length (stars ?e)" by (simp add: board_defs)
  have a5: "ident (stars ?e ! 0) = ''star1''" by (simp add: board_defs)
  have a6: "\<forall>j<0. ident (stars ?e ! j) \<noteq> ''star1''" by simp
  have a7: "0 < mass (stars ?e ! 0)" by (simp add: board_defs)
  have a8: "(- 100, 0) = (fst (currentPos dragLeft) - fst (startPos dragLeft),
                         snd (currentPos dragLeft) - snd (startPos dragLeft))"
    by (simp add: board_defs)
  have a9: "(100::real) = sqrt (fst (- 100, 0::real) * fst (- 100, 0::real)
                                + snd (- 100::real, 0) * snd (- 100::real, 0))"
    by (simp add: sqrt_10000)
  have b8: "(0, 0) = (fst (currentPos newGame) - fst (startPos newGame),
                      snd (currentPos newGame) - snd (startPos newGame))"
    by (simp add: board_defs)
  have b9: "(0::real) = sqrt (fst (0::real, 0::real) * fst (0::real, 0::real)
                              + snd (0::real, 0::real) * snd (0::real, 0::real))"
    by simp
  have b1: "selectedStar newGame = Some ''star1''" by (simp add: board_defs)
  have m: "mass (stars ?e ! 0) = 1" by (simp add: board_defs)
  have p: "currentPos dragLeft = (0, 0)" "startPos dragLeft = (100, 0)"
    by (simp_all add: board_defs)
  let ?g = "dragLeft\<lparr>gameActive := True, dragging := True\<rparr>"
  have c1: "selectedStar ?g = Some ''star1''" by (simp add: board_defs)
  have c8: "(- 100, 0) = (fst (currentPos ?g) - fst (startPos ?g),
                         snd (currentPos ?g) - snd (startPos ?g))"
    by (simp add: board_defs)
  have c0: "gameActive ?g \<and> dragging ?g \<and> dragStartTime ?g = 0" by (simp add: board_defs)
  show ?thesis
    using shoot_velocity [OF c1 a2 a3 a4 a5 a6 a7 c8 a9, of 250 100 250] c0
      shoot_velocity [OF a1 a2 a3 a4 a5 a6 a7 a8 a9, of 250 100]
      shoot_velocity [OF b1 a2 a3 a4 a5 a6 a7 b8 b9, of 250 100] a1 a3 a5 m p
    by (simp add: Let_def const_defs)
qed


subsection \<open>Switching the selected star\<close>

lemma switch_empty:
  "filter (\<lambda>s. \<not> moving s \<and> \<not> inHole s) (stars e) = [] \<Longrightarrow> switchActiveStar (g, e) = (None, g)"
  by (simp add: switchActiveStar.simps)

lemma switch_nonempty:
  assumes "filter (\<lambda>s. \<not> moving s \<and> \<not> inHole s) (stars e) = av" "av \<noteq> []"
  shows "switchActiveStar (g, e) =
     (None, g\<lparr>selectedStar := Some (ident (av ! nat
        (((case selectedStar g of None \<Rightarrow> - 1
           | Some sel \<Rightarrow> if sel = [] then - 1 else findIndex (\<lambda>s. ident s = sel) av) + 1)
         mod int (length av))))\<rparr>)"
  using assms by (simp add: switchActiveStar.simps Let_def)

lemma next_index:
  "0 < n \<Longrightarrow> nat ((int k + 1) mod int n) = (k + 1) mod n"
  by (metis nat_int of_nat_1 of_nat_add zmod_int)

text \<open>
  C9, as stated, fails twice. The call returns no value: with three stars at rest and the
  first one selected it selects the second and returns \<^verbatim>\<open>undefined\<close>. And when the selected
  star is not eligible the call takes the first eligible star, not the next one in stored
  order: with the second star moving and selected it selects the first star, not the third.
\<close>

theorem switch_selection_counterexample:
  "selectedStar newGame = Some ''star1''
   \<and> fst (switchActiveStar (newGame, openBoard (0, 0) False (0, 0) False)) = None
   \<and> selectedStar (snd (switchActiveStar (newGame, openBoard (0, 0) False (0, 0) False)))
       = Some ''star2''
   \<and> map ident (filter (\<lambda>s. \<not> moving s \<and> \<not> inHole s) (stars (openBoard (0, 0) False (5, 0) True)))
       = [''star1'', ''star3'']
   \<and> selectedStar (snd (switchActiveStar (newGame\<lparr>selectedStar := Some ''star2''\<rparr>,
                                          openBoard (0, 0) False (5, 0) True)))
       = Some ''star1''"
  by (simp add: switchActiveStar.simps Let_def board_defs)

text \<open>
  C9, amended. Let \<open>av\<close> be the stars that are neither moving nor settled, in stored
  order. When there is none the call changes nothing. Otherwise it selects a star of
  \<open>av\<close> and changes nothing else in the game: the one after the selected star, cyclically,
  when the selected star is in \<open>av\<close>, and the first star of \<open>av\<close> when it is not (or
  when nothing is selected). In both cases the call itself returns no value; the new
  selection is in \<^verbatim>\<open>gameState.selectedStar\<close>.
\<close>

theorem switch_selection:
  assumes "av = filter (\<lambda>s. \<not> moving s \<and> \<not> inHole s) (stars e)"
  shows "(av = [] \<longrightarrow> switchActiveStar (g, e) = (None, g))
     \<and> (av \<noteq> [] \<longrightarrow>
          fst (switchActiveStar (g, e)) = None
          \<and> (\<exists>k<length av. snd (switchActiveStar (g, e)) = g\<lparr>selectedStar := Some (ident (av ! k))\<rparr>)
          \<and> (\<forall>k sid. selectedStar g = Some sid \<and> sid \<noteq> [] \<and> k < length av
                \<and> ident (av ! k) = sid \<and> (\<forall>j<k. ident (av ! j) \<noteq> sid)
              \<longrightarrow> selectedStar (snd (switchActiveStar (g, e)))
                    = Some (ident (av ! ((k + 1) mod length av))))
          \<and> ((selectedStar g = None \<or> selectedStar g = Some []
               \<or> list_all (\<lambda>s. Some (ident s) \<noteq> selectedStar g) av)
              \<longrightarrow> selectedStar (snd (switchActiveStar (g, e))) = Some (ident (av ! 0))))"
proof (rule conjI; rule impI)
  assume "av = []"
  then show "switchActiveStar (g, e) = (None, g)" using assms switch_empty by simp
next
  assume ne: "av \<noteq> []"
  let ?idx = "case selectedStar g of None \<Rightarrow> - 1
           | Some sel \<Rightarrow> if sel = [] then - 1 else findIndex (\<lambda>s. ident s = sel) av"
  let ?k = "nat ((?idx + 1) mod int (length av))"
  have sw: "switchActiveStar (g, e) = (None, g\<lparr>selectedStar := Some (ident (av ! ?k))\<rparr>)"
    using switch_nonempty [OF assms [symmetric] ne] .
  have n: "0 < length av" using ne by simp
  have "0 \<le> (?idx + 1) mod int (length av) \<and> (?idx + 1) mod int (length av) < int (length av)"
    using n by simp
  then have kl: "?k < length av" by linarith
  have p1: "fst (switchActiveStar (g, e)) = None" using sw by simp
  have p2: "\<exists>k<length av. snd (switchActiveStar (g, e)) = g\<lparr>selectedStar := Some (ident (av ! k))\<rparr>"
    using sw kl by auto
  have p3: "\<forall>k sid. selectedStar g = Some sid \<and> sid \<noteq> [] \<and> k < length av
                \<and> ident (av ! k) = sid \<and> (\<forall>j<k. ident (av ! j) \<noteq> sid)
              \<longrightarrow> selectedStar (snd (switchActiveStar (g, e)))
                    = Some (ident (av ! ((k + 1) mod length av)))"
  proof (intro allI impI)
    fix k sid
    assume a: "selectedStar g = Some sid \<and> sid \<noteq> [] \<and> k < length av
                \<and> ident (av ! k) = sid \<and> (\<forall>j<k. ident (av ! j) \<noteq> sid)"
    then have "findIndex (\<lambda>s. ident s = sid) av = int k"
      using findIndex_first [of k av "\<lambda>s. ident s = sid"] by simp
    then have "?idx = int k" using a by simp
    then have "?k = (k + 1) mod length av" using next_index [OF n] by simp
    then show "selectedStar (snd (switchActiveStar (g, e)))
                    = Some (ident (av ! ((k + 1) mod length av)))"
      using sw by simp
  qed
  have p4: "(selectedStar g = None \<or> selectedStar g = Some []
               \<or> list_all (\<lambda>s. Some (ident s) \<noteq> selectedStar g) av)
              \<longrightarrow> selectedStar (snd (switchActiveStar (g, e))) = Some (ident (av ! 0))"
  proof
    assume c: "selectedStar g = None \<or> selectedStar g = Some []
               \<or> list_all (\<lambda>s. Some (ident s) \<noteq> selectedStar g) av"
    have "?idx = - 1"
    proof (cases "selectedStar g")
      case None
      then show ?thesis by simp
    next
      case (Some sid)
      show ?thesis
      proof (cases "sid = []")
        case True
        then show ?thesis using Some by simp
      next
        case False
        then have "\<forall>s\<in>set av. ident s \<noteq> sid" using c Some by (auto simp: list_all_iff)
        then have "findIndex (\<lambda>s. ident s = sid) av < 0" by (simp add: findIndex_none)
        then have "findIndex (\<lambda>s. ident s = sid) av = - 1"
          using findIndex_bounds [of "\<lambda>s. ident s = sid" av] by linarith
        then show ?thesis using Some False by simp
      qed
    qed
    then have "?k = 0" by simp
    then show "selectedStar (snd (switchActiveStar (g, e))) = Some (ident (av ! 0))"
      using sw by simp
  qed
  show "fst (switchActiveStar (g, e)) = None
          \<and> (\<exists>k<length av. snd (switchActiveStar (g, e)) = g\<lparr>selectedStar := Some (ident (av ! k))\<rparr>)
          \<and> (\<forall>k sid. selectedStar g = Some sid \<and> sid \<noteq> [] \<and> k < length av
                \<and> ident (av ! k) = sid \<and> (\<forall>j<k. ident (av ! j) \<noteq> sid)
              \<longrightarrow> selectedStar (snd (switchActiveStar (g, e)))
                    = Some (ident (av ! ((k + 1) mod length av))))
          \<and> ((selectedStar g = None \<or> selectedStar g = Some []
               \<or> list_all (\<lambda>s. Some (ident s) \<noteq> selectedStar g) av)
              \<longrightarrow> selectedStar (snd (switchActiveStar (g, e))) = Some (ident (av ! 0)))"
    using p1 p2 p3 p4 by blast
qed

theorem switch_selection_witness:
  "map ident (filter (\<lambda>s. \<not> moving s \<and> \<not> inHole s) (stars (openBoard (0, 0) False (0, 0) False)))
     = [''star1'', ''star2'', ''star3'']
   \<and> selectedStar newGame = Some ''star1''
   \<and> fst (switchActiveStar (newGame, openBoard (0, 0) False (0, 0) False)) = None
   \<and> selectedStar (snd (switchActiveStar (newGame, openBoard (0, 0) False (0, 0) False)))
       = Some ''star2''
   \<and> selectedStar (snd (switchActiveStar (newGame\<lparr>selectedStar := Some ''star3''\<rparr>,
                                          openBoard (0, 0) False (0, 0) False)))
       = Some ''star1''
   \<and> filter (\<lambda>s. \<not> moving s \<and> \<not> inHole s) (stars (snd (stateOf (update 100 (newGame, captureBoard))))) = []
   \<and> switchActiveStar (newGame, snd (stateOf (update 100 (newGame, captureBoard)))) = (None, newGame)"
proof -
  let ?e = "openBoard (0, 0) False (0, 0) False"
  let ?g3 = "newGame\<lparr>selectedStar := Some ''star3''\<rparr>"
  let ?c = "snd (stateOf (update 100 (newGame, captureBoard)))"
  have av: "stars ?e = filter (\<lambda>s. \<not> moving s \<and> \<not> inHole s) (stars ?e)"
    by (simp add: board_defs)
  have ids: "map ident (stars ?e) = [''star1'', ''star2'', ''star3'']"
    by (simp add: board_defs)
  have ne: "stars ?e \<noteq> []" by (simp add: board_defs)
  have len: "length (stars ?e) = 3" by (simp add: board_defs)
  have i0: "ident (stars ?e ! 0) = ''star1''" and i1: "ident (stars ?e ! 1) = ''star2''"
    and i2: "ident (stars ?e ! 2) = ''star3''"
    by (simp_all add: board_defs)
  have sel: "selectedStar newGame = Some ''star1''" by (simp add: board_defs)
  have h1: "selectedStar newGame = Some ''star1'' \<and> ''star1'' \<noteq> [] \<and> 0 < length (stars ?e)
            \<and> ident (stars ?e ! 0) = ''star1'' \<and> (\<forall>j<0. ident (stars ?e ! j) \<noteq> ''star1'')"
    using sel i0 len by simp
  have h3: "selectedStar ?g3 = Some ''star3'' \<and> ''star3'' \<noteq> [] \<and> 2 < length (stars ?e)
            \<and> ident (stars ?e ! 2) = ''star3'' \<and> (\<forall>j<2. ident (stars ?e ! j) \<noteq> ''star3'')"
    using i0 i1 i2 len by (simp add: less_Suc_eq numeral_2_eq_2)
  have w0: "fst (switchActiveStar (newGame, ?e)) = None"
    using switch_selection [where av = "stars ?e" and e = ?e and g = newGame, OF av] ne by blast
  have "selectedStar (snd (switchActiveStar (newGame, ?e)))
          = Some (ident (stars ?e ! ((0 + 1) mod length (stars ?e))))"
    using switch_selection [where av = "stars ?e" and e = ?e and g = newGame, OF av] ne h1 by blast
  then have w1: "selectedStar (snd (switchActiveStar (newGame, ?e))) = Some ''star2''"
    using len i1 by simp
  have "selectedStar (snd (switchActiveStar (?g3, ?e)))
          = Some (ident (stars ?e ! ((2 + 1) mod length (stars ?e))))"
    using switch_selection [where av = "stars ?e" and e = ?e and g = ?g3, OF av] ne h3 by blast
  then have w2: "selectedStar (snd (switchActiveStar (?g3, ?e))) = Some ''star1''"
    using len i0 by simp
  have s: "stars ?c = [(yellowStar (1049 / 10) 100 (0, 0) False)\<lparr>rotation := 49 / 100, inHole := True\<rparr>]"
    by (simp add: board_defs place_defs step_defs Let_def sqrt_less_iff)
  have none: "[] = filter (\<lambda>s. \<not> moving s \<and> \<not> inHole s) (stars ?c)"
    unfolding s by (simp add: board_defs)
  have w3: "switchActiveStar (newGame, ?c) = (None, newGame)"
    using switch_selection [where av = "[]" and e = ?c and g = newGame, OF none] by simp
  show ?thesis
    using av ids sel w0 w1 w2 w3 none by simp
qed

subsection \<open>A step of the engine\<close>

text \<open>
  C2, as stated, fails: a step after 100 ms (a quotient of about 6) moves a star of velocity
  \<open>(5, 0)\<close> by \<open>5 * friction * 1\<close>, not by \<open>5 * friction * 3\<close>.
\<close>

theorem stall_multiplier_counterexample:
  "(100 - lastUpdateTime (openBoard (5, 0) True (0, 0) False)) / 16.67 > 3
   \<and> useDeltaTime (openBoard (5, 0) True (0, 0) False)
   \<and> posX (hd (stars (openBoard (5, 0) True (0, 0) False))) = 800
   \<and> velocity (hd (stars (openBoard (5, 0) True (0, 0) False))) = (5, 0)
   \<and> posX (hd (stars (snd (stateOf (update 100 (newGame, openBoard (5, 0) True (0, 0) False))))))
       = 800 + 5 * friction * 1
   \<and> posX (hd (stars (snd (stateOf (update 100 (newGame, openBoard (5, 0) True (0, 0) False))))))
       \<noteq> 800 + 5 * friction * 3
   \<and> frameDelta 100 (openBoard (5, 0) True (0, 0) False) = 1"
  by (simp add: board_defs place_defs step_defs Let_def sqrt_less_iff speed_test)

text \<open>
  C2, amended. A call of \<^verbatim>\<open>update\<close> on an enabled engine runs its passes with a
  multiplier that never exceeds 3: it is 1 when the quotient of the elapsed time exceeds 3
  (and when \<^verbatim>\<open>useDeltaTime\<close> is off), and the quotient itself otherwise.
\<close>

theorem update_multiplier:
  assumes "enabled e"
  shows "update t (g, e) = advance (frameDelta t e) (g, e\<lparr>lastUpdateTime := t\<rparr>)
     \<and> frameDelta t e \<le> 3
     \<and> ((t - lastUpdateTime e) / 16.67 > 3 \<longrightarrow> frameDelta t e = 1)
     \<and> ((t - lastUpdateTime e) / 16.67 \<le> 3 \<and> useDeltaTime e
           \<longrightarrow> frameDelta t e = (t - lastUpdateTime e) / 16.67)
     \<and> (\<not> useDeltaTime e \<longrightarrow> frameDelta t e = 1)"
  using assms by (simp add: update.simps frameDelta_def Let_def)

theorem update_multiplier_witness:
  "enabled (openBoard (5, 0) True (0, 0) False)
   \<and> (100 - lastUpdateTime (openBoard (5, 0) True (0, 0) False)) / 16.67 > 3
   \<and> update 100 (newGame, openBoard (5, 0) True (0, 0) False)
       = advance 1 (newGame, (openBoard (5, 0) True (0, 0) False)\<lparr>lastUpdateTime := 100\<rparr>)
   \<and> (33.34 - lastUpdateTime (openBoard (5, 0) True (0, 0) False)) / 16.67 = 2
   \<and> update 33.34 (newGame, openBoard (5, 0) True (0, 0) False)
       = advance 2 (newGame, (openBoard (5, 0) True (0, 0) False)\<lparr>lastUpdateTime := 33.34\<rparr>)"
proof -
  let ?e = "openBoard (5, 0) True (0, 0) False"
  have en: "enabled ?e" by (simp add: board_defs)
  have l: "lastUpdateTime ?e = 0" "useDeltaTime ?e" by (simp_all add: board_defs)
  show ?thesis
    using update_multiplier [OF en, of 100 newGame] update_multiplier [OF en, of "33.34" newGame] en l
    by simp
qed


subsection \<open>When the active hole is chosen\<close>

lemma sdrop3: "stl (stl (stl s)) = sdrop 3 s"
  by (simp add: numeral_3_eq_3)

lemma initMeteorite_draws:
  "snd (fold initMeteorite els acc) = sdrop (3 * length els) (snd acc)"
proof (induction els arbitrary: acc)
  case Nil
  then show ?case by simp
next
  case (Cons el els)
  have "snd (initMeteorite el acc) = sdrop 3 (snd acc)"
    by (simp only: initMeteorite_def Let_def snd_conv sdrop3)
  then have "snd (fold initMeteorite (el # els) acc) = sdrop (3 * length els) (sdrop 3 (snd acc))"
    using Cons.IH [of "initMeteorite el acc"] by simp
  also have "\<dots> = sdrop (3 + 3 * length els) (snd acc)"
    by (simp only: sdrop_add)
  also have "3 + 3 * length els = 3 * length (el # els)" by simp
  finally show ?case .
qed

lemma setActiveHole_draws: "randomSource (setActiveHole e) = stl (randomSource e)"
  by (simp add: setActiveHole_def Let_def split: option.splits)

lemma initializeMeteorites_draws:
  "randomSource (initializeMeteorites doc e) = sdrop (3 * length (meteoriteElements doc)) (randomSource e)"
proof -
  have "randomSource (initializeMeteorites doc e)
          = snd (fold initMeteorite (meteoriteElements doc) ([], randomSource e))"
    by (simp add: initializeMeteorites_def Let_def)
  then show ?thesis by (simp only: initMeteorite_draws snd_conv)
qed

lemma initialize_draws:
  "randomSource (initialize doc now e) = sdrop (3 * length (meteoriteElements doc) + 1) (randomSource e)"
proof -
  have s0: "randomSource (initializeHoles doc (initializeStars doc e)) = randomSource e"
    by (simp add: initializeHoles_def initializeStars_def)
  have s1: "randomSource (initialize doc now e)
              = stl (randomSource (initializeMeteorites doc (initializeHoles doc (initializeStars doc e))))"
    by (simp add: initialize_def setActiveHole_draws)
  have s2: "\<And>n s. stl (sdrop n s) = sdrop (n + 1) (s::real stream)"
    by simp
  show ?thesis
    by (simp only: s1 initializeMeteorites_draws s0 s2)
qed

lemma halves_tail: "stl halves \<noteq> halves"
proof
  assume "stl halves = halves"
  then have "shd (stl halves) = shd halves" by simp
  then show False by (simp add: halves_def)
qed

text \<open>
  C4, as stated, fails. On \<open>captureBoard\<close> a step settles the star into the active hole
  and the game receives \<^verbatim>\<open>onStarInHole\<close> (which throws after adding the points); after
  the step the holes, the active hole and the random source are what they were. A call of \<^verbatim>\<open>setActiveHole\<close> draws a random
  number, so it would have left another random source: it was not called.
\<close>

theorem target_entry_without_selection:
  "received (fst (stateOf (update 100 (newGame, captureBoard)))) = [StarInHole ''star1'']
   \<and> inHole (hd (stars (snd (stateOf (update 100 (newGame, captureBoard))))))
   \<and> holes (snd (stateOf (update 100 (newGame, captureBoard)))) = holes captureBoard
   \<and> activeHole (snd (stateOf (update 100 (newGame, captureBoard)))) = activeHole captureBoard
   \<and> randomSource (snd (stateOf (update 100 (newGame, captureBoard)))) = randomSource captureBoard
   \<and> randomSource (setActiveHole captureBoard) \<noteq> randomSource captureBoard"
proof -
  have "randomSource (setActiveHole captureBoard) \<noteq> randomSource captureBoard"
    using halves_tail by (simp add: setActiveHole_draws board_defs)
  moreover have "received (fst (stateOf (update 100 (newGame, captureBoard)))) = [StarInHole ''star1'']
   \<and> inHole (hd (stars (snd (stateOf (update 100 (newGame, captureBoard))))))"
    by (simp add: board_defs place_defs step_defs Let_def sqrt_less_iff)
  ultimately show ?thesis by (simp add: update_frame)
qed

text \<open>
  C4, amended. \<^verbatim>\<open>initialize\<close> calls \<^verbatim>\<open>setActiveHole\<close> once, after the stars, holes
  and meteorites are set up: it draws one random number beyond the three of each
  meteorite. A call of \<^verbatim>\<open>update\<close>, with or without a star entering the target,
  returning or throwing, leaves the holes, the active hole and the random source as they
  are.
\<close>

theorem selection_at_level_start_only:
  "initialize doc now e
     = (setActiveHole (initializeMeteorites doc (initializeHoles doc (initializeStars doc e))))
         \<lparr>lastUpdateTime := now\<rparr>
   \<and> randomSource (initialize doc now e)
       = sdrop (3 * length (meteoriteElements doc) + 1) (randomSource e)
   \<and> holes (snd (stateOf (update t (g, e)))) = holes e
   \<and> activeHole (snd (stateOf (update t (g, e)))) = activeHole e
   \<and> randomSource (snd (stateOf (update t (g, e)))) = randomSource e"
  using initialize_draws [of doc now e] by (simp add: update_frame initialize_def)

theorem selection_at_level_start_only_witness:
  "randomSource (initialize barePage 0 (constructor halves)) = stl halves
   \<and> received (fst (stateOf (update 100 (newGame, captureBoard)))) = [StarInHole ''star1'']
   \<and> holes (snd (stateOf (update 100 (newGame, captureBoard)))) = holes captureBoard
   \<and> randomSource (snd (stateOf (update 100 (newGame, captureBoard)))) = halves"
proof -
  have r: "received (fst (stateOf (update 100 (newGame, captureBoard)))) = [StarInHole ''star1'']"
    by (simp add: board_defs place_defs step_defs Let_def sqrt_less_iff)
  have m: "meteoriteElements barePage = []" by (simp add: barePage_def)
  have c: "randomSource (constructor halves) = halves" "randomSource captureBoard = halves"
    by (simp_all add: board_defs)
  show ?thesis
    using selection_at_level_start_only [of barePage 0 "constructor halves" 100 newGame, THEN conjunct2]
      selection_at_level_start_only [of barePage 0 captureBoard 100 newGame, THEN conjunct2] r m c
    by simp
qed

subsection \<open>A settled star is at rest\<close>

lemma updateStar_skip:
  "\<not> moving st \<or> inHole st \<Longrightarrow> updateStar dt e (g, st) = Returns (g, st)"
  by (auto simp: updateStar.simps)

lemma checkBoundary_flags:
  "moving (snd (checkBoundaryCollisions (g, st))) = moving st
   \<and> inHole (snd (checkBoundaryCollisions (g, st))) = inHole st
   \<and> ident (snd (checkBoundaryCollisions (g, st))) = ident st"
  by (simp add: checkBoundaryCollisions.simps Let_def)

text \<open>
  The loop over the holes: while it goes on the star is not settled, and when a star is
  settled the loop ends with an exception and the star at rest.
\<close>

lemma checkHole_settle:
  assumes "\<not> inHole (snd w)"
  shows "case checkHole h w of
           Returns w' \<Rightarrow> \<not> inHole (snd w') \<and> moving (snd w') = moving (snd w)
         | Throws err w' \<Rightarrow> inHole (snd w') \<and> velocity (snd w') = (0, 0) \<and> \<not> moving (snd w')"
  using assms
  by (cases w) (simp add: checkHole.simps Let_def onStarInHole_def updateScore_def)

lemma forEach_checkHole_settle:
  assumes "\<not> inHole (snd w)"
  shows "case forEach checkHole hs w of
           Returns w' \<Rightarrow> \<not> inHole (snd w') \<and> moving (snd w') = moving (snd w)
         | Throws err w' \<Rightarrow> inHole (snd w') \<and> velocity (snd w') = (0, 0) \<and> \<not> moving (snd w')"
  using assms
proof (induction hs arbitrary: w)
  case Nil
  then show ?case by simp
next
  case (Cons h hs)
  show ?case
  proof (cases "checkHole h w")
    case (Returns w1)
    then have "\<not> inHole (snd w1) \<and> moving (snd w1) = moving (snd w)"
      using checkHole_settle [OF Cons.prems, of h] by simp
    then show ?thesis using Cons.IH [of w1] Returns by (auto split: outcome.splits)
  next
    case (Throws err w1)
    then show ?thesis using checkHole_settle [OF Cons.prems, of h] by simp
  qed
qed

lemma checkMeteorite_flags:
  "moving (snd (stateOf (checkMeteorite m w))) = moving (snd w)
   \<and> inHole (snd (stateOf (checkMeteorite m w))) = inHole (snd w)"
  by (cases w) (simp add: checkMeteorite.simps Let_def onStarHitMeteorite_def updateScore_def)

lemma forEach_checkMeteorite_flags:
  "moving (snd (stateOf (forEach checkMeteorite ms w))) = moving (snd w)
   \<and> inHole (snd (stateOf (forEach checkMeteorite ms w))) = inHole (snd w)"
proof (induction ms arbitrary: w)
  case Nil
  then show ?case by simp
next
  case (Cons m ms)
  show ?case
  proof (cases "checkMeteorite m w")
    case (Returns w1)
    then show ?thesis using Cons.IH [of w1] checkMeteorite_flags [of m w] by simp
  next
    case (Throws err w1)
    then show ?thesis using checkMeteorite_flags [of m w] by simp
  qed
qed

text \<open>One star of the pass: it ends at rest if settled, and it is settled anew only when the
  pass ends there with an exception.\<close>

lemma updateStar_settle:
  assumes "\<not> inHole st"
  shows "case updateStar dt e (g, st) of
           Returns w' \<Rightarrow> \<not> inHole (snd w')
         | Throws err w' \<Rightarrow> atRestIfSettled (snd w')"
proof (cases "moving st")
  case False
  then show ?thesis using assms by (simp add: updateStar_skip)
next
  case True
  let ?s1 = "st\<lparr>velocity := (fst (velocity st) * friction, snd (velocity st) * friction),
                  posX := posX st + fst (velocity st) * friction * dt,
                  posY := posY st + snd (velocity st) * friction * dt,
                  rotation := rotation st + (fst (velocity st) * friction * 0.1) * dt\<rparr>"
  let ?w1 = "checkBoundaryCollisions (g, ?s1)"
  have n1: "\<not> inHole (snd ?w1)" using assms by (simp add: checkBoundary_flags)
  show ?thesis
  proof (cases "checkHoleCollisions e ?w1")
    case (Throws err w2)
    then have "atRestIfSettled (snd w2)"
      using forEach_checkHole_settle [OF n1, of "holes e"]
      by (simp add: checkHoleCollisions_def atRestIfSettled_def)
    then show ?thesis using True assms Throws by (simp add: updateStar.simps Let_def)
  next
    case (Returns w2)
    then have n2: "\<not> inHole (snd w2)"
      using forEach_checkHole_settle [OF n1, of "holes e"]
      by (simp add: checkHoleCollisions_def)
    show ?thesis
    proof (cases "checkMeteoriteCollisions e w2")
      case (Throws err w3)
      then have "\<not> inHole (snd w3)"
        using forEach_checkMeteorite_flags [of "meteorites e" w2] n2
        by (simp add: checkMeteoriteCollisions_def)
      then show ?thesis using True assms Returns Throws
        by (simp add: updateStar.simps Let_def atRestIfSettled_def)
    next
      case R3: (Returns w3)
      then have "\<not> inHole (snd w3)"
        using forEach_checkMeteorite_flags [of "meteorites e" w2] n2
        by (simp add: checkMeteoriteCollisions_def)
      then show ?thesis using True assms Returns R3
        by (simp add: updateStar.simps Let_def)
    qed
  qed
qed

lemma updateStar_atRest:
  assumes "atRestIfSettled st"
  shows "atRestIfSettled (snd (stateOf (updateStar dt e (g, st))))"
proof (cases "inHole st")
  case True
  then show ?thesis using assms by (simp add: updateStar_skip)
next
  case False
  then show ?thesis using updateStar_settle [OF False, of dt e g]
    by (cases "updateStar dt e (g, st)") (simp_all add: atRestIfSettled_def)
qed

text \<open>The stars after the pass: the length stays, and each star is as it was or as its own
  step left it.\<close>

lemma updateStarList_length: "length (snd (stateOf (updateStarList dt e g sts))) = length sts"
proof (induction sts arbitrary: g)
  case Nil
  then show ?case by simp
next
  case (Cons a sts)
  show ?case
  proof (cases "updateStar dt e (g, a)")
    case (Throws err w)
    then show ?thesis by simp
  next
    case (Returns w)
    then show ?thesis
      using Cons.IH [of "fst w"]
      by (cases "updateStarList dt e (fst w) sts") simp_all
  qed
qed

lemma updateStarList_nth:
  "i < length sts \<Longrightarrow>
     snd (stateOf (updateStarList dt e g sts)) ! i = sts ! i
     \<or> (\<exists>g'. snd (stateOf (updateStarList dt e g sts)) ! i
               = snd (stateOf (updateStar dt e (g', sts ! i))))"
proof (induction sts arbitrary: g i)
  case Nil
  then show ?case by simp
next
  case (Cons a sts)
  show ?case
  proof (cases "updateStar dt e (g, a)")
    case (Throws err w)
    then have l: "snd (stateOf (updateStarList dt e g (a # sts))) = snd w # sts" by simp
    show ?thesis
    proof (cases i)
      case 0
      then show ?thesis using l Throws by (metis nth_Cons_0 outcome.sel(2))
    next
      case (Suc k)
      then show ?thesis using l by simp
    qed
  next
    case (Returns w)
    then have l: "snd (stateOf (updateStarList dt e g (a # sts)))
                    = snd w # snd (stateOf (updateStarList dt e (fst w) sts))"
      by (simp split: outcome.splits)
    show ?thesis
    proof (cases i)
      case 0
      then show ?thesis using l Returns by (metis nth_Cons_0 outcome.sel(1))
    next
      case (Suc k)
      then have "k < length sts" using Cons.prems by simp
      then show ?thesis using Cons.IH [of k "fst w"] l Suc by simp
    qed
  qed
qed

lemma updateStar_engine:
  assumes "holes e' = holes e" and "meteorites e' = meteorites e"
  shows "updateStar dt e' w = updateStar dt e w"
proof -
  have h: "checkHoleCollisions e' = checkHoleCollisions e"
    using assms(1) by (simp add: checkHoleCollisions_def fun_eq_iff)
  have m: "checkMeteoriteCollisions e' = checkMeteoriteCollisions e"
    using assms(2) by (simp add: checkMeteoriteCollisions_def fun_eq_iff)
  obtain g st where w: "w = (g, st)" by (cases w)
  show ?thesis unfolding w updateStar.simps h m ..
qed

lemma update_stars_length: "length (stars (snd (stateOf (update t (g, e))))) = length (stars e)"
  by (simp add: update_state updateStarList_length)

lemma update_star:
  assumes "i < length (stars e)"
  shows "stars (snd (stateOf (update t (g, e)))) ! i = stars e ! i
         \<or> (enabled e \<and> (\<exists>g'. stars (snd (stateOf (update t (g, e)))) ! i
                = snd (stateOf (updateStar (frameDelta t e) e (g', stars e ! i)))))"
proof (cases "enabled e")
  case False
  then show ?thesis by (simp add: update_state)
next
  case True
  have eq: "\<And>g'. updateStar (frameDelta t e) (e\<lparr>lastUpdateTime := t\<rparr>) (g', stars e ! i)
                   = updateStar (frameDelta t e) e (g', stars e ! i)"
    by (rule updateStar_engine) simp_all
  have s: "stars (snd (stateOf (update t (g, e))))
             = snd (stateOf (updateStarList (frameDelta t e) (e\<lparr>lastUpdateTime := t\<rparr>) g (stars e)))"
    using True by (simp add: update_state)
  show ?thesis
    using updateStarList_nth [OF assms, of "frameDelta t e" "e\<lparr>lastUpdateTime := t\<rparr>" g] True
    unfolding s eq by blast
qed

lemma updateStarList_returned_nth:
  "returned (updateStarList dt e g sts) \<Longrightarrow> i < length sts \<Longrightarrow>
     \<exists>g' w'. updateStar dt e (g', sts ! i) = Returns w'
             \<and> snd (stateOf (updateStarList dt e g sts)) ! i = snd w'"
proof (induction sts arbitrary: g i)
  case Nil
  then show ?case by simp
next
  case (Cons a sts)
  show ?case
  proof (cases "updateStar dt e (g, a)")
    case (Throws err w)
    then show ?thesis using Cons.prems(1) by simp
  next
    case (Returns w)
    then have r: "returned (updateStarList dt e (fst w) sts)"
      using Cons.prems(1) by (simp split: outcome.splits)
    have l: "snd (stateOf (updateStarList dt e g (a # sts)))
               = snd w # snd (stateOf (updateStarList dt e (fst w) sts))"
      using Returns by (simp split: outcome.splits)
    show ?thesis
    proof (cases i)
      case 0
      have "updateStar dt e (g, (a # sts) ! 0) = Returns w
            \<and> snd (stateOf (updateStarList dt e g (a # sts))) ! 0 = snd w"
        using l Returns by simp
      then show ?thesis unfolding 0 by blast
    next
      case (Suc k)
      then have "k < length sts" using Cons.prems(2) by simp
      then show ?thesis using Cons.IH [OF r, of k] l Suc by simp
    qed
  qed
qed

lemma update_returned_star:
  assumes "returned (update t (g, e))" and "enabled e" and "i < length (stars e)"
  shows "\<exists>g' w'. updateStar (frameDelta t e) e (g', stars e ! i) = Returns w'
                 \<and> stars (snd (stateOf (update t (g, e)))) ! i = snd w'"
proof -
  have r: "returned (updateStarList (frameDelta t e) (e\<lparr>lastUpdateTime := t\<rparr>) g (stars e))"
    using assms(1,2) by (simp add: update_returned)
  have eq: "\<And>g'. updateStar (frameDelta t e) (e\<lparr>lastUpdateTime := t\<rparr>) (g', stars e ! i)
                   = updateStar (frameDelta t e) e (g', stars e ! i)"
    by (rule updateStar_engine) simp_all
  have s: "stars (snd (stateOf (update t (g, e))))
             = snd (stateOf (updateStarList (frameDelta t e) (e\<lparr>lastUpdateTime := t\<rparr>) g (stars e)))"
    using assms(1,2) by (simp add: update_state)
  show ?thesis
    using updateStarList_returned_nth [OF r assms(3)] unfolding s eq .
qed

lemma findIndex_found:
  "0 \<le> findIndex P xs \<Longrightarrow>
     P (xs ! nat (findIndex P xs)) \<and> (\<forall>j<nat (findIndex P xs). \<not> P (xs ! j))"
proof (induction xs)
  case Nil
  then show ?case by simp
next
  case (Cons a xs)
  show ?case
  proof (cases "P a")
    case True
    then show ?thesis by simp
  next
    case False
    then have r: "0 \<le> findIndex P xs" and i: "findIndex P (a # xs) = findIndex P xs + 1"
      using Cons.prems by (simp_all add: Let_def split: if_splits)
    have n: "nat (findIndex P xs + 1) = Suc (nat (findIndex P xs))" using r by linarith
    show ?thesis
      unfolding i n using Cons.IH [OF r] False by (auto simp: less_Suc_eq_0_disj)
  qed
qed

lemma initStar_fresh:
  "list_all (\<lambda>s. \<not> inHole s \<and> \<not> moving s) acc
   \<Longrightarrow> list_all (\<lambda>s. \<not> inHole s \<and> \<not> moving s) (fold (initStar doc) els acc)"
proof (induction els arbitrary: acc)
  case Nil
  then show ?case by simp
next
  case (Cons el els)
  obtain sid ty where el: "el = (sid, ty)" by (cases el)
  have "list_all (\<lambda>s. \<not> inHole s \<and> \<not> moving s) (initStar doc el acc)"
    using Cons.prems unfolding el by (simp split: option.splits)
  then show ?case using Cons.IH by simp
qed

lemma initializeStars_fresh:
  "list_all (\<lambda>s. \<not> inHole s \<and> \<not> moving s) (stars (initializeStars doc e))"
  using initStar_fresh [of "[]" doc starElements] by (simp add: initializeStars_def)

lemma shootStar_stars:
  "stars (shootStar gs d dt e) = stars e
   \<or> (\<exists>i st'. i < length (stars e) \<and> stars (shootStar gs d dt e) = (stars e)[i := st']
              \<and> moving st' \<and> \<not> inHole st' \<and> ident st' = ident (stars e ! i)
              \<and> Some (ident (stars e ! i)) = selectedStar gs
              \<and> (\<forall>j<i. Some (ident (stars e ! j)) \<noteq> selectedStar gs))"
proof (cases "selectedStar gs")
  case None
  then show ?thesis by (simp add: shootStar_def)
next
  case (Some sel)
  let ?i = "findIndex (\<lambda>s. ident s = sel) (stars e)"
  show ?thesis
  proof (cases "0 \<le> ?i")
    case False
    then show ?thesis using Some by (simp add: shootStar_def elemAt_def Let_def)
  next
    case True
    have b: "?i < int (length (stars e))"
      using findIndex_bounds [of "\<lambda>s. ident s = sel" "stars e"] by simp
    then have n: "nat ?i < length (stars e)" using True by linarith
    have f: "ident (stars e ! nat ?i) = sel \<and> (\<forall>j<nat ?i. ident (stars e ! j) \<noteq> sel)"
      using findIndex_found [OF True] by simp
    have "shootStar gs d dt e = e
          \<or> (\<exists>v. shootStar gs d dt e
                   = e\<lparr>stars := (stars e)[nat ?i := (stars e ! nat ?i)
                                   \<lparr>velocity := v, moving := True, inHole := False\<rparr>]\<rparr>)"
      using Some True b by (simp add: shootStar_def elemAt_def Let_def, blast)
    then show ?thesis
    proof
      assume "shootStar gs d dt e = e"
      then show ?thesis by simp
    next
      assume "\<exists>v. shootStar gs d dt e
                   = e\<lparr>stars := (stars e)[nat ?i := (stars e ! nat ?i)
                                   \<lparr>velocity := v, moving := True, inHole := False\<rparr>]\<rparr>"
      then obtain v where v: "shootStar gs d dt e
                   = e\<lparr>stars := (stars e)[nat ?i := (stars e ! nat ?i)
                                   \<lparr>velocity := v, moving := True, inHole := False\<rparr>]\<rparr>"
        by blast
      let ?st' = "(stars e ! nat ?i)\<lparr>velocity := v, moving := True, inHole := False\<rparr>"
      have "nat ?i < length (stars e) \<and> stars (shootStar gs d dt e) = (stars e)[nat ?i := ?st']
              \<and> moving ?st' \<and> \<not> inHole ?st' \<and> ident ?st' = ident (stars e ! nat ?i)
              \<and> Some (ident (stars e ! nat ?i)) = selectedStar gs
              \<and> (\<forall>j<nat ?i. Some (ident (stars e ! j)) \<noteq> selectedStar gs)"
        using v n f Some by simp
      then show ?thesis by blast
    qed
  qed
qed

text \<open>
  C1. If every settled star of the engine has velocity \<open>(0, 0)\<close> and is not moving, then
  so it is after a call of \<^verbatim>\<open>update\<close>, whether the call returns or throws, and after a
  call of \<^verbatim>\<open>shootStar\<close>; the stars that \<^verbatim>\<open>initializeStars\<close> creates are not settled.
  Within a pass: a star that was not settled before the pass and is settled after it was
  settled by \<^verbatim>\<open>checkHoleCollisions\<close>, whose notification of the game throws, so the pass
  ended there, and no later hole or meteorite check ran.
\<close>

theorem settled_star_at_rest:
  assumes "list_all atRestIfSettled (stars e)"
  shows "list_all atRestIfSettled (stars (snd (stateOf (update t (g, e)))))
     \<and> list_all atRestIfSettled (stars (shootStar gs d dragTime e))
     \<and> list_all atRestIfSettled (stars (initializeStars doc e))
     \<and> (\<forall>i<length (stars e).
            \<not> inHole (stars e ! i) \<and> inHole (stars (snd (stateOf (update t (g, e)))) ! i)
            \<longrightarrow> \<not> returned (update t (g, e)))"
proof -
  let ?e' = "snd (stateOf (update t (g, e)))"
  have q: "\<And>i. i < length (stars e) \<Longrightarrow> atRestIfSettled (stars e ! i)"
    using assms by (simp add: list_all_length)
  have "\<And>i. i < length (stars ?e') \<Longrightarrow> atRestIfSettled (stars ?e' ! i)"
  proof -
    fix i assume "i < length (stars ?e')"
    then have i: "i < length (stars e)" using update_stars_length by simp
    show "atRestIfSettled (stars ?e' ! i)"
      using update_star [OF i, of t g] q [OF i] updateStar_atRest [OF q [OF i]] by auto
  qed
  then have a: "list_all atRestIfSettled (stars ?e')"
    by (simp add: list_all_length)
  have b: "list_all atRestIfSettled (stars (shootStar gs d dragTime e))"
  proof (rule disjE [OF shootStar_stars [of gs d dragTime e]])
    assume "stars (shootStar gs d dragTime e) = stars e"
    then show ?thesis using assms by simp
  next
    assume "\<exists>i st'. i < length (stars e)
              \<and> stars (shootStar gs d dragTime e) = (stars e)[i := st']
              \<and> moving st' \<and> \<not> inHole st' \<and> ident st' = ident (stars e ! i)
              \<and> Some (ident (stars e ! i)) = selectedStar gs
              \<and> (\<forall>j<i. Some (ident (stars e ! j)) \<noteq> selectedStar gs)"
    then obtain i st' where s: "stars (shootStar gs d dragTime e) = (stars e)[i := st']"
      and n: "\<not> inHole st'" by blast
    have "\<And>x. x \<in> set ((stars e)[i := st']) \<Longrightarrow> atRestIfSettled x"
    proof -
      fix x assume "x \<in> set ((stars e)[i := st'])"
      then have "x = st' \<or> x \<in> set (stars e)"
        using set_update_subset_insert [of "stars e" i st'] by auto
      then show "atRestIfSettled x"
        using n assms by (auto simp: atRestIfSettled_def list_all_iff)
    qed
    then show ?thesis unfolding s by (simp add: list_all_iff)
  qed
  have c: "list_all atRestIfSettled (stars (initializeStars doc e))"
    using initializeStars_fresh [of doc e]
    by (simp add: list_all_iff atRestIfSettled_def)
  have d: "\<forall>i<length (stars e).
            \<not> inHole (stars e ! i) \<and> inHole (stars ?e' ! i) \<longrightarrow> \<not> returned (update t (g, e))"
  proof (intro allI impI notI)
    fix i
    assume i: "i < length (stars e)"
      and h: "\<not> inHole (stars e ! i) \<and> inHole (stars ?e' ! i)"
      and r: "returned (update t (g, e))"
    show False
    proof (cases "enabled e")
      case False
      then show False using h by (simp add: update_state)
    next
      case True
      then obtain g' w' where u: "updateStar (frameDelta t e) e (g', stars e ! i) = Returns w'"
        and s: "stars ?e' ! i = snd w'"
        using update_returned_star [OF r True i] by blast
      have "\<not> inHole (snd w')"
        using updateStar_settle [of "stars e ! i" "frameDelta t e" e g'] h u by simp
      then show False using h s by simp
    qed
  qed
  show ?thesis using a b c d by blast
qed

theorem settled_star_at_rest_witness:
  "list_all atRestIfSettled (stars hazardBoard)
   \<and> \<not> inHole (stars hazardBoard ! 0)
   \<and> inHole (stars (snd (stateOf (update 100 (newGame, hazardBoard)))) ! 0)
   \<and> velocity (stars (snd (stateOf (update 100 (newGame, hazardBoard)))) ! 0) = (0, 0)
   \<and> \<not> moving (stars (snd (stateOf (update 100 (newGame, hazardBoard)))) ! 0)
   \<and> \<not> returned (update 100 (newGame, hazardBoard))
   \<and> received (fst (stateOf (update 100 (newGame, hazardBoard)))) = [StarInHole ''star1'']
   \<and> velocity (stars (snd (stateOf (update 100 (newGame, twoHoleBoard)))) ! 0) = (0, 0)"
proof -
  have h: "list_all atRestIfSettled (stars hazardBoard)"
    and h2: "list_all atRestIfSettled (stars twoHoleBoard)"
    by (simp_all add: board_defs atRestIfSettled_def)
  have n: "\<not> inHole (stars hazardBoard ! 0)" and l: "0 < length (stars hazardBoard)"
    by (simp_all add: board_defs)
  have l': "length (stars (snd (stateOf (update 100 (newGame, hazardBoard))))) = 1"
    and l2: "length (stars (snd (stateOf (update 100 (newGame, twoHoleBoard))))) = 1"
    by (simp_all add: update_stars_length board_defs)
  have i: "inHole (stars (snd (stateOf (update 100 (newGame, hazardBoard)))) ! 0)"
    and i2: "inHole (stars (snd (stateOf (update 100 (newGame, twoHoleBoard)))) ! 0)"
    and r: "received (fst (stateOf (update 100 (newGame, hazardBoard)))) = [StarInHole ''star1'']"
    by (simp_all add: board_defs place_defs step_defs Let_def sqrt_less_iff)
  note T = settled_star_at_rest [OF h, of 100 newGame dragLeft 100 250 barePage]
  have a: "atRestIfSettled (stars (snd (stateOf (update 100 (newGame, hazardBoard)))) ! 0)"
    using T [THEN conjunct1] l' by (simp add: list_all_length)
  have d: "\<not> returned (update 100 (newGame, hazardBoard))"
    using T [THEN conjunct2, THEN conjunct2, THEN conjunct2, rule_format, of 0] l n i
    by blast
  have a2: "atRestIfSettled (stars (snd (stateOf (update 100 (newGame, twoHoleBoard)))) ! 0)"
    using settled_star_at_rest [OF h2, of 100 newGame dragLeft 100 250 barePage] l2
    by (simp add: list_all_length)
  show ?thesis using h n i i2 r a a2 d by (simp add: atRestIfSettled_def)
qed

subsection \<open>Stars stay on the board\<close>

lemma checkBoundary_inBounds:
  assumes "radius st \<le> boardHeight / 2"
  shows "inBounds (snd (checkBoundaryCollisions (g, st)))"
  using assms
  by (simp add: checkBoundaryCollisions.simps inBounds_def boardHeight_def boardWidth_def Let_def)

text \<open>What a loop leaves alone in each round, whether the round returns or throws, it
  leaves alone as a whole.\<close>

lemma forEach_keeps:
  assumes "\<And>a s. q (stateOf (f a s)) = q s"
  shows "q (stateOf (forEach f as s)) = q s"
proof (induction as arbitrary: s)
  case Nil
  then show ?case by simp
next
  case (Cons a as)
  show ?case
  proof (cases "f a s")
    case (Throws err s')
    then show ?thesis using assms [of a s] by simp
  next
    case (Returns s')
    then show ?thesis using assms [of a s] Cons.IH [of s'] by simp
  qed
qed

lemma checkHole_place:
  "(\<lambda>w. (posX (snd w), posY (snd w), radius (snd w))) (stateOf (checkHole h w))
     = (\<lambda>w. (posX (snd w), posY (snd w), radius (snd w))) w"
  by (cases w) (simp add: checkHole.simps Let_def onStarInHole_def updateScore_def)

lemma checkMeteorite_place:
  "(\<lambda>w. (posX (snd w), posY (snd w), radius (snd w))) (stateOf (checkMeteorite m w))
     = (\<lambda>w. (posX (snd w), posY (snd w), radius (snd w))) w"
  by (cases w) (simp add: checkMeteorite.simps Let_def onStarHitMeteorite_def updateScore_def)

lemma forEach_checkHole_place:
  "posX (snd (stateOf (forEach checkHole hs w))) = posX (snd w)
   \<and> posY (snd (stateOf (forEach checkHole hs w))) = posY (snd w)
   \<and> radius (snd (stateOf (forEach checkHole hs w))) = radius (snd w)"
  using forEach_keeps [of "\<lambda>w. (posX (snd w), posY (snd w), radius (snd w))" checkHole hs w,
      OF checkHole_place]
  by simp

lemma forEach_checkMeteorite_place:
  "posX (snd (stateOf (forEach checkMeteorite ms w))) = posX (snd w)
   \<and> posY (snd (stateOf (forEach checkMeteorite ms w))) = posY (snd w)
   \<and> radius (snd (stateOf (forEach checkMeteorite ms w))) = radius (snd w)"
  using forEach_keeps [of "\<lambda>w. (posX (snd w), posY (snd w), radius (snd w))" checkMeteorite ms w,
      OF checkMeteorite_place]
  by simp

lemma inBounds_place:
  "posX a = posX b \<Longrightarrow> posY a = posY b \<Longrightarrow> radius a = radius b \<Longrightarrow> inBounds a = inBounds b"
  by (simp add: inBounds_def)

lemma updateStar_inBounds:
  assumes "radius st \<le> boardHeight / 2" and "moving st" and "\<not> inHole st"
  shows "inBounds (snd (stateOf (updateStar dt e (g, st))))"
proof -
  let ?s1 = "st\<lparr>velocity := (fst (velocity st) * friction, snd (velocity st) * friction),
                  posX := posX st + fst (velocity st) * friction * dt,
                  posY := posY st + snd (velocity st) * friction * dt,
                  rotation := rotation st + (fst (velocity st) * friction * 0.1) * dt\<rparr>"
  let ?w1 = "checkBoundaryCollisions (g, ?s1)"
  have r: "radius ?s1 \<le> boardHeight / 2" using assms(1) by simp
  have b1: "inBounds (snd ?w1)" by (rule checkBoundary_inBounds [OF r])
  have b2: "inBounds (snd (stateOf (checkHoleCollisions e ?w1)))"
    using b1 inBounds_place [of "snd (stateOf (checkHoleCollisions e ?w1))" "snd ?w1"]
      forEach_checkHole_place [of "holes e" ?w1]
    by (simp add: checkHoleCollisions_def)
  show ?thesis
  proof (cases "checkHoleCollisions e ?w1")
    case (Throws err w2)
    then show ?thesis using assms(2,3) b2 by (simp add: updateStar.simps Let_def)
  next
    case (Returns w2)
    have b3: "inBounds (snd (stateOf (checkMeteoriteCollisions e w2)))"
      using b2 Returns inBounds_place [of "snd (stateOf (checkMeteoriteCollisions e w2))" "snd w2"]
        forEach_checkMeteorite_place [of "meteorites e" w2]
      by (simp add: checkMeteoriteCollisions_def)
    show ?thesis
    proof (cases "checkMeteoriteCollisions e w2")
      case T3: (Throws err w3)
      then show ?thesis using assms(2,3) Returns b3 by (simp add: updateStar.simps Let_def)
    next
      case R3: (Returns w3)
      then have s3: "inBounds (snd w3)" using b3 by simp
      have "inBounds ((snd w3)\<lparr>velocity := (0, 0), moving := False\<rparr>)"
        using s3 by (simp add: inBounds_def)
      then show ?thesis
        using assms(2,3) Returns R3 s3 by (simp add: updateStar.simps Let_def)
    qed
  qed
qed

text \<open>
  C6, as stated, fails: a step skips a star that is not moving, wherever it is.
  \<^verbatim>\<open>initializeStars\<close> places a star whose element has no position in its style at
  \<open>(0, 0)\<close>, closer to the edges than its radius of 16; \<^verbatim>\<open>update\<close> returns and leaves it
  there.
\<close>

theorem star_containment_counterexample:
  "stars (initializeStars barePage (constructor halves)) = [yellowStar 0 0 (0, 0) False]
   \<and> returned (update 100 (newGame, initializeStars barePage (constructor halves)))
   \<and> stars (snd (stateOf (update 100 (newGame, initializeStars barePage (constructor halves)))))
       = [yellowStar 0 0 (0, 0) False]
   \<and> posX (yellowStar 0 0 (0, 0) False) = 0 \<and> radius (yellowStar 0 0 (0, 0) False) = 16
   \<and> \<not> inBounds (hd (stars (snd (stateOf
          (update 100 (newGame, initializeStars barePage (constructor halves)))))))"
proof -
  have i: "stars (initializeStars barePage (constructor halves)) = [yellowStar 0 0 (0, 0) False]"
    by (simp add: initializeStars_def starElements_def barePage_def parseIntOr0_def board_defs)
  have e: "enabled (initializeStars barePage (constructor halves))"
    by (simp add: initializeStars_def board_defs)
  have u: "stars (snd (stateOf (update 100 (newGame, initializeStars barePage (constructor halves)))))
       = [yellowStar 0 0 (0, 0) False]"
    using e by (simp add: update_state i updateStar.simps yellowStar_def)
  have r: "returned (update 100 (newGame, initializeStars barePage (constructor halves)))"
    using e by (simp add: update_returned i updateStar.simps yellowStar_def)
  have n: "\<not> inBounds (yellowStar 0 0 (0, 0) False)"
    by (simp add: inBounds_def yellowStar_def const_defs)
  show ?thesis using i u r n by (simp add: yellowStar_def const_defs)
qed

text \<open>
  C6, amended. A call of \<^verbatim>\<open>update\<close>, whether it returns or throws, keeps the number of
  stars, and leaves each star either as it was or on the board:
  \<open>radius \<le> x \<le> boardWidth - radius\<close> and \<open>radius \<le> y \<le> boardHeight - radius\<close>. A star that
  the pass does not integrate (the engine is disabled, or the star is not moving, or it is
  settled) is left as it is. When \<^verbatim>\<open>update\<close> returns, every star that was to be integrated
  (the engine is enabled, the star is moving and not settled) lies on the board. So a star
  that lies on the board before a call of \<^verbatim>\<open>update\<close> lies on it after the call. The radius
  of the star is at most half the height of the board, as the radius 16 of every star is.
\<close>

theorem star_containment:
  assumes "i < length (stars e)" and "radius (stars e ! i) \<le> boardHeight / 2"
  shows "length (stars (snd (stateOf (update t (g, e))))) = length (stars e)
     \<and> (stars (snd (stateOf (update t (g, e)))) ! i = stars e ! i
          \<or> inBounds (stars (snd (stateOf (update t (g, e)))) ! i))
     \<and> (\<not> (enabled e \<and> moving (stars e ! i) \<and> \<not> inHole (stars e ! i))
          \<longrightarrow> stars (snd (stateOf (update t (g, e)))) ! i = stars e ! i)
     \<and> (returned (update t (g, e)) \<and> enabled e \<and> moving (stars e ! i) \<and> \<not> inHole (stars e ! i)
          \<longrightarrow> inBounds (stars (snd (stateOf (update t (g, e)))) ! i))
     \<and> (inBounds (stars e ! i) \<longrightarrow> inBounds (stars (snd (stateOf (update t (g, e)))) ! i))"
proof -
  let ?st = "stars e ! i"
  let ?st' = "stars (snd (stateOf (update t (g, e)))) ! i"
  have skip: "\<And>g'. \<not> moving ?st \<or> inHole ?st \<Longrightarrow>
                snd (stateOf (updateStar (frameDelta t e) e (g', ?st))) = ?st"
    by (simp add: updateStar_skip)
  have step: "\<And>g'. moving ?st \<and> \<not> inHole ?st \<Longrightarrow>
                inBounds (snd (stateOf (updateStar (frameDelta t e) e (g', ?st))))"
    using updateStar_inBounds [OF assms(2)] by simp
  have a: "?st' = ?st \<or> inBounds ?st'"
    using update_star [OF assms(1), of t g] skip step by metis
  have b: "\<not> (enabled e \<and> moving ?st \<and> \<not> inHole ?st) \<longrightarrow> ?st' = ?st"
    using update_star [OF assms(1), of t g] skip by metis
  have c: "returned (update t (g, e)) \<and> enabled e \<and> moving ?st \<and> \<not> inHole ?st
             \<longrightarrow> inBounds ?st'"
  proof
    assume h: "returned (update t (g, e)) \<and> enabled e \<and> moving ?st \<and> \<not> inHole ?st"
    then obtain g' w' where u: "updateStar (frameDelta t e) e (g', ?st) = Returns w'"
      and s: "?st' = snd w'"
      using update_returned_star [OF _ _ assms(1), of t g] by blast
    have "inBounds (snd (stateOf (updateStar (frameDelta t e) e (g', ?st))))"
      using step h by simp
    then show "inBounds ?st'" using u s by simp
  qed
  have d: "inBounds ?st \<longrightarrow> inBounds ?st'" using a by auto
  show ?thesis using a b c d update_stars_length [of t g e] by blast
qed

theorem star_containment_witness:
  "radius (stars wallBoard ! 0) \<le> boardHeight / 2
   \<and> enabled wallBoard \<and> moving (stars wallBoard ! 0) \<and> \<not> inHole (stars wallBoard ! 0)
   \<and> posX (stars wallBoard ! 0) + fst (velocity (stars wallBoard ! 0)) * friction * 1 = 10.2
   \<and> returned (update 100 (newGame, wallBoard))
   \<and> posX (stars (snd (stateOf (update 100 (newGame, wallBoard)))) ! 0) = 16
   \<and> velocity (stars (snd (stateOf (update 100 (newGame, wallBoard)))) ! 0) = (7.84, 0)
   \<and> received (fst (stateOf (update 100 (newGame, wallBoard)))) = [StarBounce ''star1'']
   \<and> inBounds (stars (snd (stateOf (update 100 (newGame, wallBoard)))) ! 0)"
proof -
  have l: "0 < length (stars wallBoard)" by (simp add: board_defs)
  have r: "radius (stars wallBoard ! 0) \<le> boardHeight / 2" by (simp add: board_defs const_defs)
  have h: "enabled wallBoard \<and> moving (stars wallBoard ! 0) \<and> \<not> inHole (stars wallBoard ! 0)"
    by (simp add: board_defs)
  have p: "posX (stars wallBoard ! 0) + fst (velocity (stars wallBoard ! 0)) * friction * 1 = 10.2"
    by (simp add: board_defs const_defs)
  have u: "posX (stars (snd (stateOf (update 100 (newGame, wallBoard)))) ! 0) = 16
   \<and> velocity (stars (snd (stateOf (update 100 (newGame, wallBoard)))) ! 0) = (7.84, 0)
   \<and> received (fst (stateOf (update 100 (newGame, wallBoard)))) = [StarBounce ''star1'']"
    by (simp add: board_defs place_defs step_defs Let_def sqrt_less_iff speed_test)
  have q: "returned (update 100 (newGame, wallBoard))"
    by (simp add: board_defs place_defs step_defs Let_def sqrt_less_iff speed_test)
  show ?thesis
    using star_containment [OF l r, of 100 newGame] r h p u q by simp
qed

subsection \<open>Friction stops a star\<close>

lemma forEach_checkHole_far:
  "list_all (\<lambda>h. \<not> sqrt ((posX st - posX h) * (posX st - posX h)
                           + (posY st - posY h) * (posY st - posY h)) < collisionThreshold) hs
   \<Longrightarrow> forEach checkHole hs (g, st) = Returns (g, st)"
  by (induction hs) (simp_all add: checkHole.simps Let_def)

lemma forEach_checkMeteorite_far:
  "list_all (\<lambda>m. \<not> sqrt ((posX st - posX m) * (posX st - posX m)
                           + (posY st - posY m) * (posY st - posY m)) < radius st + radius m) ms
   \<Longrightarrow> forEach checkMeteorite ms (g, st) = Returns (g, st)"
  by (induction ms) (simp_all add: checkMeteorite.simps Let_def)

lemma checkBoundary_inside:
  "\<not> posX st < radius st \<Longrightarrow> \<not> posX st > boardWidth - radius st \<Longrightarrow>
   \<not> posY st < radius st \<Longrightarrow> \<not> posY st > boardHeight - radius st \<Longrightarrow>
   checkBoundaryCollisions (g, st) = (g, st)"
  by (simp add: checkBoundaryCollisions.simps Let_def)

lemma sqrt_scaled:
  assumes "0 \<le> f"
  shows "sqrt ((a * f) * (a * f) + (b * f) * (b * f)) = f * sqrt (a * a + b * b)"
proof -
  have "(a * f) * (a * f) + (b * f) * (b * f) = (f * f) * (a * a + b * b)"
    by (simp add: algebra_simps)
  then have "sqrt ((a * f) * (a * f) + (b * f) * (b * f)) = sqrt (f * f) * sqrt (a * a + b * b)"
    by (simp only: real_sqrt_mult)
  then show ?thesis using assms by simp
qed

lemma speed_friction:
  "sqrt ((a * friction) * (a * friction) + (b * friction) * (b * friction))
     = friction * sqrt (a * a + b * b)"
  by (rule sqrt_scaled) (simp add: friction_def)

text \<open>A step of a star without contact returns, with friction, displacement and the
  stopping rule applied.\<close>

lemma updateStar_contactFree:
  assumes "moving st" and "\<not> inHole st" and "contactFree dt e st"
  shows "updateStar dt e (g, st) =
     Returns (g, (st\<lparr>velocity := (if friction * speed st < minSpeed then (0, 0)
                           else (fst (velocity st) * friction, snd (velocity st) * friction)),
             posX := posX st + fst (velocity st) * friction * dt,
             posY := posY st + snd (velocity st) * friction * dt,
             rotation := rotation st + (fst (velocity st) * friction * 0.1) * dt,
             moving := \<not> friction * speed st < minSpeed\<rparr>))"
proof -
  let ?s1 = "st\<lparr>velocity := (fst (velocity st) * friction, snd (velocity st) * friction),
                  posX := posX st + fst (velocity st) * friction * dt,
                  posY := posY st + snd (velocity st) * friction * dt,
                  rotation := rotation st + (fst (velocity st) * friction * 0.1) * dt\<rparr>"
  have b: "checkBoundaryCollisions (g, ?s1) = (g, ?s1)"
    using assms(3) by (intro checkBoundary_inside) (simp_all add: contactFree_def Let_def)
  have h: "checkHoleCollisions e (g, ?s1) = Returns (g, ?s1)"
    unfolding checkHoleCollisions_def
    using assms(3) by (intro forEach_checkHole_far) (simp add: contactFree_def Let_def)
  have m: "checkMeteoriteCollisions e (g, ?s1) = Returns (g, ?s1)"
    unfolding checkMeteoriteCollisions_def
    using assms(3) by (intro forEach_checkMeteorite_far) (simp add: contactFree_def Let_def)
  have sp: "sqrt (fst (velocity st) * friction * (fst (velocity st) * friction)
                  + snd (velocity st) * friction * (snd (velocity st) * friction))
              = friction * speed st"
    unfolding speed_def by (rule speed_friction)
  have "updateStar dt e (g, st) =
          (if friction * speed st < minSpeed
           then Returns (g, ?s1\<lparr>velocity := (0, 0), moving := False\<rparr>)
           else Returns (g, ?s1))"
    using assms(1,2) unfolding updateStar.simps Let_def b h outcome.case m
    by (simp add: sp)
  then show ?thesis using assms(1) by simp
qed

lemma speed_nonneg: "0 \<le> speed st"
  by (simp add: speed_def)

text \<open>A call of \<^verbatim>\<open>update\<close> that returns, at a star without contact in it.\<close>

lemma step_facts:
  assumes "enabled e" and "i < length (stars e)" and "\<not> inHole (stars e ! i)"
    and "moving (stars e ! i) \<and> \<not> inHole (stars e ! i)
           \<longrightarrow> contactFree (frameDelta t e) e (stars e ! i)"
    and "returned (update t (g, e))"
  shows "\<not> inHole (stars (snd (stateOf (update t (g, e)))) ! i)
     \<and> (moving (stars (snd (stateOf (update t (g, e)))) ! i)
          \<longrightarrow> moving (stars e ! i)
              \<and> speed (stars (snd (stateOf (update t (g, e)))) ! i) = friction * speed (stars e ! i)
              \<and> minSpeed \<le> speed (stars (snd (stateOf (update t (g, e)))) ! i))"
proof -
  let ?st = "stars e ! i"
  let ?st1 = "stars (snd (stateOf (update t (g, e)))) ! i"
  obtain g' w' where u: "updateStar (frameDelta t e) e (g', ?st) = Returns w'"
    and s: "?st1 = snd w'"
    using update_returned_star [OF assms(5,1,2)] by blast
  show ?thesis
  proof (cases "moving ?st")
    case False
    then have "updateStar (frameDelta t e) e (g', ?st) = Returns (g', ?st)"
      by (simp add: updateStar_skip)
    then have "w' = (g', ?st)" unfolding u by simp
    then have "?st1 = ?st" using s by simp
    then show ?thesis using False assms(3) by simp
  next
    case True
    then have cf: "contactFree (frameDelta t e) e ?st" using assms(3,4) by simp
    have sp: "sqrt (fst (velocity ?st) * friction * (fst (velocity ?st) * friction)
                  + snd (velocity ?st) * friction * (snd (velocity ?st) * friction))
              = friction * speed ?st"
      unfolding speed_def by (rule speed_friction)
    have w': "w' = stateOf (updateStar (frameDelta t e) e (g', ?st))" using u by simp
    show ?thesis
      unfolding s w' updateStar_contactFree [OF True assms(3) cf]
      using assms(3) True by (simp add: speed_def sp [unfolded speed_def])
  qed
qed

lemma run_speed:
  assumes "enabled e" and "i < length (stars e)" and "\<not> inHole (stars e ! i)"
    and "contactFreeRun ts i (g, e)" and "runReturns ts (g, e)"
  shows "\<not> inHole (stars (snd (run ts (g, e))) ! i)
     \<and> (moving (stars (snd (run ts (g, e))) ! i)
          \<longrightarrow> moving (stars e ! i)
              \<and> speed (stars (snd (run ts (g, e))) ! i) = friction ^ length ts * speed (stars e ! i)
              \<and> (ts \<noteq> [] \<longrightarrow> minSpeed \<le> speed (stars (snd (run ts (g, e))) ! i)))"
  using assms
proof (induction ts arbitrary: g e)
  case Nil
  then show ?case by simp
next
  case (Cons t ts)
  obtain g1 e1 where u: "stateOf (update t (g, e)) = (g1, e1)"
    by (cases "stateOf (update t (g, e))")
  then have e1: "e1 = snd (stateOf (update t (g, e)))" by simp
  have cf: "moving (stars e ! i) \<and> \<not> inHole (stars e ! i)
              \<longrightarrow> contactFree (frameDelta t e) e (stars e ! i)"
    using Cons.prems(4) by simp
  have rt: "returned (update t (g, e))" using Cons.prems(5) by simp
  have st: "\<not> inHole (stars e1 ! i)
     \<and> (moving (stars e1 ! i)
          \<longrightarrow> moving (stars e ! i) \<and> speed (stars e1 ! i) = friction * speed (stars e ! i)
              \<and> minSpeed \<le> speed (stars e1 ! i))"
    unfolding e1 by (rule step_facts [OF Cons.prems(1,2,3) cf rt])
  have en: "enabled e1" using Cons.prems(1) e1 update_frame(4) by simp
  have len: "i < length (stars e1)" using Cons.prems(2) e1 update_stars_length by simp
  have cfr: "contactFreeRun ts i (g1, e1)" using Cons.prems(4) u by simp
  have rr: "runReturns ts (g1, e1)" using Cons.prems(5) u by simp
  have ih: "\<not> inHole (stars (snd (run ts (g1, e1))) ! i)
     \<and> (moving (stars (snd (run ts (g1, e1))) ! i)
          \<longrightarrow> moving (stars e1 ! i)
              \<and> speed (stars (snd (run ts (g1, e1))) ! i) = friction ^ length ts * speed (stars e1 ! i)
              \<and> (ts \<noteq> [] \<longrightarrow> minSpeed \<le> speed (stars (snd (run ts (g1, e1))) ! i)))"
    using Cons.IH [OF en len _ cfr rr] st by blast
  have r: "run (t # ts) (g, e) = run ts (g1, e1)" using u by simp
  show ?case
  proof (cases "moving (stars (snd (run ts (g1, e1))) ! i)")
    case False
    then show ?thesis using ih r by simp
  next
    case True
    then have m1: "moving (stars e1 ! i)"
      and s1: "speed (stars (snd (run ts (g1, e1))) ! i) = friction ^ length ts * speed (stars e1 ! i)"
      and b1: "ts \<noteq> [] \<longrightarrow> minSpeed \<le> speed (stars (snd (run ts (g1, e1))) ! i)"
      using ih by blast+
    have m0: "moving (stars e ! i)" and s0: "speed (stars e1 ! i) = friction * speed (stars e ! i)"
      and b0: "minSpeed \<le> speed (stars e1 ! i)"
      using st m1 by blast+
    have "speed (stars (snd (run ts (g1, e1))) ! i) = friction ^ length (t # ts) * speed (stars e ! i)"
      using s1 s0 by simp
    moreover have "minSpeed \<le> speed (stars (snd (run ts (g1, e1))) ! i)"
    proof (cases "ts = []")
      case True
      then show ?thesis using b0 by simp
    next
      case False
      then show ?thesis using b1 by simp
    qed
    ultimately show ?thesis using ih r m0 by simp
  qed
qed

lemma stop_bound:
  assumes "0 \<le> s"
  shows "\<exists>N. \<forall>n\<ge>N. friction ^ n * s < minSpeed"
proof (cases "s = 0")
  case True
  then show ?thesis by (simp add: minSpeed_def)
next
  case False
  then have sp: "0 < s" using assms by simp
  have "0 < minSpeed / s" using sp by (simp add: minSpeed_def)
  moreover have "friction < 1" by (simp add: friction_def)
  ultimately obtain N where N: "friction ^ N < minSpeed / s"
    using real_arch_pow_inv by blast
  have "\<forall>n\<ge>N. friction ^ n * s < minSpeed"
  proof (intro allI impI)
    fix n assume "N \<le> n"
    then have "friction ^ n \<le> friction ^ N"
      by (intro power_decreasing) (simp_all add: friction_def)
    then have "friction ^ n < minSpeed / s" using N by simp
    then show "friction ^ n * s < minSpeed" using sp by (simp add: pos_less_divide_eq)
  qed
  then show ?thesis by blast
qed

text \<open>
  Friction does stop a star when every call returns. Take an enabled engine, a star of it
  that is not settled, and a run of calls of \<^verbatim>\<open>update\<close> that all return and along which
  the star has no contact with an edge, a hole or a meteorite. There is a number \<open>N\<close>,
  which depends on the star's speed only, such that after any such run of at least \<open>N\<close>
  calls (and at least one) the star is not moving; and while the star is still moving its
  speed is \<open>friction ^ n\<close> times what it was, \<open>n\<close> the number of calls.
\<close>

lemma friction_stops_when_update_returns:
  assumes "enabled e" and "i < length (stars e)" and "\<not> inHole (stars e ! i)"
  shows "(\<exists>N. \<forall>ts g. N \<le> length ts \<and> ts \<noteq> [] \<and> contactFreeRun ts i (g, e)
                      \<and> runReturns ts (g, e)
                 \<longrightarrow> \<not> moving (stars (snd (run ts (g, e))) ! i))
     \<and> (\<forall>ts g. contactFreeRun ts i (g, e) \<and> runReturns ts (g, e)
                 \<and> moving (stars (snd (run ts (g, e))) ! i)
          \<longrightarrow> speed (stars (snd (run ts (g, e))) ! i) = friction ^ length ts * speed (stars e ! i))"
proof -
  let ?st = "stars e ! i"
  have stops: "\<And>ts g. ts \<noteq> [] \<Longrightarrow> contactFreeRun ts i (g, e) \<Longrightarrow> runReturns ts (g, e) \<Longrightarrow>
      friction ^ length ts * speed ?st < minSpeed \<Longrightarrow> \<not> moving (stars (snd (run ts (g, e))) ! i)"
  proof
    fix ts g
    assume ne: "ts \<noteq> []" and cf: "contactFreeRun ts i (g, e)" and rr: "runReturns ts (g, e)"
      and lt: "friction ^ length ts * speed ?st < minSpeed"
      and mv: "moving (stars (snd (run ts (g, e))) ! i)"
    have "speed (stars (snd (run ts (g, e))) ! i) = friction ^ length ts * speed ?st
          \<and> minSpeed \<le> speed (stars (snd (run ts (g, e))) ! i)"
      using run_speed [OF assms(1,2,3) cf rr] mv ne by blast
    then show False using lt by simp
  qed
  obtain N where N: "\<forall>n\<ge>N. friction ^ n * speed ?st < minSpeed"
    using stop_bound [OF speed_nonneg] by blast
  have c1: "\<exists>N. \<forall>ts g. N \<le> length ts \<and> ts \<noteq> [] \<and> contactFreeRun ts i (g, e)
                      \<and> runReturns ts (g, e)
                 \<longrightarrow> \<not> moving (stars (snd (run ts (g, e))) ! i)"
    using N stops by blast
  have c2: "\<forall>ts g. contactFreeRun ts i (g, e) \<and> runReturns ts (g, e)
                 \<and> moving (stars (snd (run ts (g, e))) ! i)
          \<longrightarrow> speed (stars (snd (run ts (g, e))) ! i) = friction ^ length ts * speed ?st"
    using run_speed [OF assms(1,2,3)] by blast
  show ?thesis using c1 c2 by blast
qed


lemma speed_axis: "speed (yellowStar a b (c, 0) m) = \<bar>c\<bar>"
  by (simp add: speed_def yellowStar_def)

text \<open>A yellow star alone in motion, at speed 0.52: the first call leaves it moving at
  speed 0.5096, the second stops it.\<close>

lemma friction_stops_example:
  "contactFreeRun [100, 200] 0 (newGame, openBoard (0.52, 0) True (0, 0) False)
   \<and> runReturns [100, 200] (newGame, openBoard (0.52, 0) True (0, 0) False)
   \<and> velocity (stars (snd (run [100] (newGame, openBoard (0.52, 0) True (0, 0) False))) ! 0)
       = (0.5096, 0)
   \<and> moving (stars (snd (run [100] (newGame, openBoard (0.52, 0) True (0, 0) False))) ! 0)
   \<and> \<not> moving (stars (snd (run [100, 200] (newGame, openBoard (0.52, 0) True (0, 0) False))) ! 0)"
proof -
  let ?e = "openBoard (0.52, 0) True (0, 0) False"
  let ?w1 = "(newGame\<lparr>camera := (800 + 0.5096 * 0.05, 400)\<rparr>,
       ?e\<lparr>lastUpdateTime := 100,
          stars := [(yellowStar 800.5096 400 (0.5096, 0) True)\<lparr>rotation := 0.05096\<rparr>,
                    blueStar 850 450 (0, 0) False, redStar 750 450 (0, 0) False]\<rparr>)"
  have en: "enabled ?e" by (simp add: board_defs)
  have l: "0 < length (stars ?e)" by (simp add: board_defs)
  have st: "stars ?e ! 0 = yellowStar 800 400 (0.52, 0) True" by (simp add: openBoard_def)
  have nh: "\<not> inHole (stars ?e ! 0)" unfolding st by (simp add: yellowStar_def)
  have sp: "speed (stars ?e ! 0) = 0.52" unfolding st speed_axis by simp
  have u1: "update 100 (newGame, ?e) = Returns ?w1"
    by (simp add: board_defs place_defs step_defs Let_def speed_test)
  have r2: "returned (update 200 ?w1)"
    by (simp add: board_defs place_defs step_defs Let_def speed_test)
  have rr: "runReturns [100, 200] (newGame, ?e)"
    unfolding runReturns.simps u1 using r2 by simp
  have cf: "contactFreeRun [100, 200] 0 (newGame, ?e)"
    unfolding contactFreeRun.simps u1
    by (simp add: board_defs place_defs contactFree_def frameDelta_def)
  have m1: "velocity (stars (snd (run [100] (newGame, ?e))) ! 0) = (0.5096, 0)
            \<and> moving (stars (snd (run [100] (newGame, ?e))) ! 0)"
    unfolding run.simps u1 by (simp add: board_defs)
  have lt: "friction ^ length [100, 200::real] * speed (stars ?e ! 0) < minSpeed"
    unfolding sp by (simp add: friction_def minSpeed_def power2_eq_square)
  have "speed (stars (snd (run [100, 200] (newGame, ?e))) ! 0)
          = friction ^ length [100, 200::real] * speed (stars ?e ! 0)
        \<and> minSpeed \<le> speed (stars (snd (run [100, 200] (newGame, ?e))) ! 0)"
    if "moving (stars (snd (run [100, 200] (newGame, ?e))) ! 0)"
    using run_speed [OF en l nh cf rr] that by blast
  then have "\<not> moving (stars (snd (run [100, 200] (newGame, ?e))) ! 0)"
    using lt by auto
  then show ?thesis using cf rr m1 by simp
qed

text \<open>
  The star pinned between the wall and the meteorite: friction, the wall and the
  meteorite leave it where it was, with the velocity it had, and the notification of the
  hit throws.
\<close>

lemma pinned_star:
  assumes "0 \<le> dt" and "holes e = []" and "meteorites e = [meteoriteAt 40 400]"
    and "st\<lparr>rotation := 0\<rparr> = yellowStar 16 400 (- 5, 0) True"
  shows "\<not> returned (updateStar dt e (g, st))
     \<and> (snd (stateOf (updateStar dt e (g, st))))\<lparr>rotation := 0\<rparr> = yellowStar 16 400 (- 5, 0) True"
proof -
  have st: "st = (yellowStar 16 400 (- 5, 0) True)\<lparr>rotation := rotation st\<rparr>"
    using assms(4) [symmetric] by simp
  have a: "atan2 0 (- 24) = pi" by (simp add: atan2_def)
  have q: "sqrt 576 < 31" by (simp add: sqrt_less_iff)
  show ?thesis
  proof (cases "dt = 0")
    case True
    show ?thesis
      by (subst st, subst (2) st)
        (simp add: True assms(2,3) yellowStar_def meteoriteAt_def place_defs
          updateStar.simps checkBoundaryCollisions.simps checkHoleCollisions_def
          checkMeteoriteCollisions_def checkMeteorite.simps onStarHitMeteorite_def
          updateScore_def Let_def a q)
  next
    case False
    then have p: "0 < dt" using assms(1) by simp
    show ?thesis
      by (subst st, subst (2) st)
        (simp add: p assms(2,3) yellowStar_def meteoriteAt_def place_defs
          updateStar.simps checkBoundaryCollisions.simps checkHoleCollisions_def
          checkMeteoriteCollisions_def checkMeteorite.simps onStarHitMeteorite_def
          updateScore_def Let_def a q)
  qed
qed


lemma frameDelta_nonneg: "lastUpdateTime e \<le> t \<Longrightarrow> 0 \<le> frameDelta t e"
  by (simp add: frameDelta_def Let_def)

lemma frameDelta_le: "frameDelta t e \<le> 3"
  by (simp add: frameDelta_def Let_def)

lemma pinned_step:
  assumes "pinned (g, e)" and "lastUpdateTime e \<le> t"
  shows "pinned (stateOf (update t (g, e)))
     \<and> lastUpdateTime (snd (stateOf (update t (g, e)))) = t
     \<and> \<not> returned (update t (g, e))"
proof -
  let ?dt = "frameDelta t e"
  let ?e = "e\<lparr>lastUpdateTime := t\<rparr>"
  obtain s0 s1 where l: "stars e = [s0, s1]"
    using assms(1) unfolding pinned_def
    by (metis (no_types, lifting) length_0_conv length_Suc_conv numeral_2_eq_2 snd_conv)
  have s0: "s0\<lparr>rotation := 0\<rparr> = yellowStar 16 400 (- 5, 0) True"
    and s1: "s1 = blueStar 850 450 (0.52, 0) True"
    and en: "enabled e" and ud: "useDeltaTime e"
    and h: "holes ?e = []" and m: "meteorites ?e = [meteoriteAt 40 400]"
    using assms(1) l by (simp_all add: pinned_def)
  note p = pinned_star [OF frameDelta_nonneg [OF assms(2)] h m s0, of g]
  obtain err w where u: "updateStar ?dt ?e (g, s0) = Throws err w"
    using p by (cases "updateStar ?dt ?e (g, s0)") simp_all
  have w: "(snd w)\<lparr>rotation := 0\<rparr> = yellowStar 16 400 (- 5, 0) True"
    using p u by simp
  have r: "updateStarList ?dt ?e g (stars e) = Throws err (fst w, [snd w, s1])"
    using u l by simp
  have n: "\<not> returned (update t (g, e))"
    using en r by (simp add: update_returned)
  have e': "snd (stateOf (update t (g, e))) = e\<lparr>lastUpdateTime := t, stars := [snd w, s1]\<rparr>"
    using en n r by (simp add: update_state)
  have "pinned (stateOf (update t (g, e)))"
    unfolding pinned_def e' using en ud h m w s1 by simp
  then show ?thesis using n e' by simp
qed

lemma pinned_run:
  "pinned (g, e) \<Longrightarrow> sorted (lastUpdateTime e # ts) \<Longrightarrow> pinned (run ts (g, e))"
proof (induction ts arbitrary: g e)
  case Nil
  then show ?case by simp
next
  case (Cons t ts)
  obtain g' e' where w: "stateOf (update t (g, e)) = (g', e')"
    by (cases "stateOf (update t (g, e))")
  have le: "lastUpdateTime e \<le> t" using Cons.prems(2) by simp
  have p: "pinned (g', e')" and c: "lastUpdateTime e' = t"
    using pinned_step [OF Cons.prems(1) le] w by simp_all
  have "sorted (lastUpdateTime e' # ts)" using Cons.prems(2) c by simp
  then show ?case using Cons.IH [OF p] w by simp
qed

text \<open>The second star of such a state has no contact in a step.\<close>

lemma pinned_contactFree:
  assumes "pinned (g, e)" and "lastUpdateTime e \<le> t"
  shows "contactFree (frameDelta t e) e (stars e ! 1)"
proof -
  have s1: "stars e ! 1 = blueStar 850 450 (0.52, 0) True"
    and h: "holes e = []" and m: "meteorites e = [meteoriteAt 40 400]"
    using assms(1) by (simp_all add: pinned_def)
  let ?dt = "frameDelta t e"
  define x where "x = 850 + 0.52 * 0.98 * ?dt - 40"
  have u: "?dt \<le> 3" by (rule frameDelta_le)
  have l: "0 \<le> ?dt" using assms(2) by (rule frameDelta_nonneg)
  have "0 \<le> x * x" by (rule zero_le_square)
  then have "\<not> x * x + (450 - 400) * (450 - 400) < 31 * 31"
    by (simp add: not_less add_nonneg_nonneg)
  then have "\<not> sqrt (x * x + (450 - 400) * (450 - 400)) < 31"
    using sqrt_less_iff [of 31 "x * x + (450 - 400) * (450 - 400)"] by simp
  then have f: "\<not> sqrt ((850 + 0.52 * 0.98 * ?dt - 40) * (850 + 0.52 * 0.98 * ?dt - 40)
                    + (450 - 400) * (450 - 400)) < 31"
    unfolding x_def .
  have b: "\<not> 850 + 0.52 * 0.98 * ?dt < 16" "\<not> 850 + 0.52 * 0.98 * ?dt > 1600 - 16"
    using u l by simp_all
  show ?thesis
    using f b unfolding contactFree_def s1 h m
    by (simp add: blueStar_def meteoriteAt_def place_defs Let_def)
qed

lemma pinned_contactFreeRun:
  "pinned (g, e) \<Longrightarrow> sorted (lastUpdateTime e # ts) \<Longrightarrow> contactFreeRun ts 1 (g, e)"
proof (induction ts arbitrary: g e)
  case Nil
  then show ?case by simp
next
  case (Cons t ts)
  obtain g' e' where w: "stateOf (update t (g, e)) = (g', e')"
    by (cases "stateOf (update t (g, e))")
  have le: "lastUpdateTime e \<le> t" using Cons.prems(2) by simp
  have p: "pinned (g', e')" and c: "lastUpdateTime e' = t"
    using pinned_step [OF Cons.prems(1) le] w by simp_all
  have "sorted (lastUpdateTime e' # ts)" using Cons.prems(2) c by simp
  then have "contactFreeRun ts 1 (g', e')" using Cons.IH [OF p] by simp
  then show ?case using w pinned_contactFree [OF Cons.prems(1) le] by simp
qed

lemma speed_axis_blue: "speed (blueStar a b (c, 0) m) = \<bar>c\<bar>"
  by (simp add: speed_def blueStar_def)

lemma pinned_runReturns:
  "pinned (g, e) \<Longrightarrow> sorted (lastUpdateTime e # t # ts) \<Longrightarrow> \<not> runReturns (t # ts) (g, e)"
  using pinned_step [of g e t] by simp

text \<open>
  C8 fails on the code. On \<open>pinnedBoard\<close> the blue star moves at speed 0.52 and has no
  contact in any step, but every call of \<^verbatim>\<open>update\<close> ends at the yellow star before it, in
  the exception of \<^verbatim>\<open>onStarHitMeteorite\<close>: friction is never applied to the blue star,
  and it is moving, with the velocity it had, after any number of calls.
\<close>

theorem friction_convergence_blocked:
  assumes "sorted (0 # ts)"
  shows "contactFreeRun ts 1 (newGame, pinnedBoard)
     \<and> stars (snd (run ts (newGame, pinnedBoard))) ! 1 = blueStar 850 450 (0.52, 0) True
     \<and> moving (stars (snd (run ts (newGame, pinnedBoard))) ! 1)
     \<and> speed (stars (snd (run ts (newGame, pinnedBoard))) ! 1) = 0.52
     \<and> (ts \<noteq> [] \<longrightarrow> \<not> returned (update (hd ts) (newGame, pinnedBoard)))"
proof -
  have p: "pinned (newGame, pinnedBoard)"
    by (simp add: pinned_def pinnedBoard_def constructor_def yellowStar_def)
  have s: "sorted (lastUpdateTime pinnedBoard # ts)"
    using assms by (simp add: pinnedBoard_def constructor_def)
  have a: "contactFreeRun ts 1 (newGame, pinnedBoard)"
    by (rule pinned_contactFreeRun [OF p s])
  have b: "stars (snd (run ts (newGame, pinnedBoard))) ! 1 = blueStar 850 450 (0.52, 0) True"
    using pinned_run [OF p s] by (simp add: pinned_def)
  have v: "speed (blueStar 850 450 (0.52, 0) True) = 0.52"
    by (simp add: speed_axis_blue)
  have c: "ts \<noteq> [] \<longrightarrow> \<not> returned (update (hd ts) (newGame, pinnedBoard))"
  proof
    assume "ts \<noteq> []"
    then obtain t ts' where ts: "ts = t # ts'" by (cases ts) simp_all
    have "lastUpdateTime pinnedBoard \<le> t" using s ts by simp
    then show "\<not> returned (update (hd ts) (newGame, pinnedBoard))"
      using pinned_step [OF p] ts by simp
  qed
  have m: "moving (blueStar 850 450 (0.52, 0) True)" by (simp add: blueStar_def)
  show ?thesis using a b c v m by simp
qed

theorem friction_convergence_blocked_witness:
  "sorted [0, 100, 200 :: real]
   \<and> contactFreeRun [100, 200] 1 (newGame, pinnedBoard)
   \<and> stars pinnedBoard ! 1 = blueStar 850 450 (0.52, 0) True
   \<and> stars (snd (run [100, 200] (newGame, pinnedBoard))) ! 1 = blueStar 850 450 (0.52, 0) True
   \<and> speed (blueStar 850 450 (0.52, 0) True) * friction * friction < minSpeed
   \<and> \<not> returned (update 100 (newGame, pinnedBoard))"
proof -
  have s: "sorted (0 # [100, 200 :: real])" by simp
  have f: "speed (blueStar 850 450 (0.52, 0) True) * friction * friction < minSpeed"
    by (simp add: speed_axis_blue const_defs)
  have i: "stars pinnedBoard ! 1 = blueStar 850 450 (0.52, 0) True"
    by (simp add: pinnedBoard_def)
  show ?thesis using friction_convergence_blocked [OF s] f i by simp
qed

subsection \<open>The calls of \<^verbatim>\<open>shootStar\<close> that the program makes\<close>



























end
